theory Spec2Isabelle
  imports Main
begin

section \<open>LSP data of the Arduino language server\<close>

text \<open>
  A document URI is identified with its textual form (the result of \<open>String()\<close>).
  The operations of the \<open>lsp\<close>, \<open>paths\<close> and \<open>sourcemapper\<close> packages, which the
  handler calls but which are not part of \<open>handler.go\<close>, are fields of an environment
  record: what is proved of the handler holds for every behaviour of these collaborators.
\<close>

type_synonym DocumentURI = string

definition NilURI :: DocumentURI where
  "NilURI = []"

record Position =
  Line :: int
  Character :: int

record Range =
  Start :: Position
  End :: Position

definition NilRange :: Range where
  "NilRange = \<lparr>Start = \<lparr>Line = 0, Character = 0\<rparr>, End = \<lparr>Line = 0, Character = 0\<rparr>\<rparr>"

type_synonym SymbolKind = nat

text \<open>The symbol kind \<open>Function\<close> of the protocol.\<close>

definition SKFunction :: SymbolKind where
  "SKFunction = 12"

datatype DocumentSymbol = DocumentSymbol
  (Name: string)
  (Detail: string)
  (Kind: SymbolKind)
  (Deprecated: bool)
  (ds_Range: Range)
  (SelectionRange: Range)
  (Children: "DocumentSymbol list")

text \<open>
  The error a range conversion of the source mapper may return beside its values:
  \<open>AdjustedRangeErr\<close> marks a range whose end was moved, any other error is a failure.
\<close>

datatype maperr = AdjustedRangeErr | MapperError string

text \<open>
  The synthetic unit held by the source mapper: its text and version (\<open>CppText\<close>) and the
  line tables, whose representation is left open (\<open>'m\<close>).
\<close>

record 'm InoMapper =
  CppText_Text :: string
  CppText_Version :: int
  lineTables :: 'm

text \<open>A content change carries its range by pointer: \<open>None\<close> is the \<open>nil\<close> pointer.\<close>

record TextDocumentContentChangeEvent =
  ce_Range :: "Range option"
  ce_RangeLength :: int
  ce_Text :: string

record TextDocumentItem =
  td_URI :: DocumentURI
  td_LanguageID :: string
  td_Version :: int
  td_Text :: string

record TextDocumentPositionParams =
  tp_URI :: DocumentURI
  tp_Position :: Position

record TextEdit =
  te_Range :: Range
  te_NewText :: string

record CompletionItem =
  Label :: string
  InsertText :: string
  ci_TextEdit :: "TextEdit option"

record CompletionList =
  IsIncomplete :: bool
  Items :: "CompletionItem list"

record MarkupContent =
  mc_Kind :: string
  Value :: string

record Hover =
  Contents :: MarkupContent
  hv_Range :: "Range option"

record SymbolInformation =
  si_Name :: string
  si_URI :: DocumentURI
  si_Range :: Range

record Diagnostic =
  dg_Range :: Range
  Severity :: int
  Code :: string
  dg_Message :: string

record PublishDiagnosticsParams =
  pd_URI :: DocumentURI
  Diagnostics :: "Diagnostic list"

text \<open>\<open>lsp.DocumentSymbolArrayOrSymbolInformationArray\<close>: at most one of the two arrays is set.\<close>

datatype SymbolsReply =
    DocumentSymbolArray "DocumentSymbol list"
  | SymbolInformationArray "SymbolInformation list"
  | NullSymbols

text \<open>
  The messages of the protocol this development follows through the handler, each a method
  with its parameters. The first three are notifications, the others requests.
\<close>

datatype Message =
    DidOpen TextDocumentItem
  | DidClose DocumentURI
  | DidChange DocumentURI int "TextDocumentContentChangeEvent list"
  | CompletionReq TextDocumentPositionParams
  | HoverReq TextDocumentPositionParams
  | DocumentSymbolReq DocumentURI

text \<open>
  A result (Go's \<open>interface{}\<close>): \<open>Nil\<close>, what clangd answered, or the
  \<open>[]lsp.DocumentSymbol\<close> that \<open>cpp2inoDocumentSymbols\<close> returns.
\<close>

datatype Result =
    Nil
  | HoverResult Hover
  | CompletionResult CompletionList
  | SymbolsResult SymbolsReply
  | DocumentSymbols "DocumentSymbol list"

datatype error =
    UnknownURI DocumentURI
  | InvalidChangeRange DocumentURI Range
  | MapError maperr
  | PathError string
  | InvalidResponse
  | ConnError string
  | Panic string

record 'm env =
  \<comment> \<open>\<open>lsp.DocumentURI\<close>\<close>
  Ext :: "DocumentURI \<Rightarrow> string"
  Canonical :: "DocumentURI \<Rightarrow> string"
  Unbox :: "DocumentURI \<Rightarrow> string"
  NewDocumentURI :: "string \<Rightarrow> DocumentURI"
  \<comment> \<open>the workbench paths: \<open>uri.AsPath().EquivalentTo(handler.buildSketchCpp)\<close>,
      \<open>lsp.NewDocumentURIFromPath(handler.buildSketchCpp)\<close>, and the path arithmetic
      between \<open>sketchRoot\<close> and \<open>buildSketchRoot\<close>\<close>
  EquivalentToBuildSketchCpp :: "DocumentURI \<Rightarrow> bool"
  buildSketchCppURI :: DocumentURI
  IsInsideSketchRoot :: "DocumentURI \<Rightarrow> string + bool"
  SketchRootRelTo :: "DocumentURI \<Rightarrow> string + string"
  BuildSketchRootJoin :: "string \<Rightarrow> DocumentURI"
  IsInsideBuildSketchRoot :: "DocumentURI \<Rightarrow> string + bool"
  BuildSketchRootRelTo :: "DocumentURI \<Rightarrow> string + string"
  SketchRootJoin :: "string \<Rightarrow> DocumentURI"
  \<comment> \<open>\<open>sourcemapper.InoMapper\<close>\<close>
  NotInoFile :: string
  NotInoURI :: DocumentURI
  IsPreprocessedCppLine :: "'m InoMapper \<Rightarrow> int \<Rightarrow> bool"
  CppToInoRange :: "'m InoMapper \<Rightarrow> Range \<Rightarrow> string \<times> Range"
  CppToInoRangeOk :: "'m InoMapper \<Rightarrow> Range \<Rightarrow> string \<times> Range \<times> maperr option"
  InoToCppLineOk :: "'m InoMapper \<Rightarrow> DocumentURI \<Rightarrow> int \<Rightarrow> int \<times> bool"
  InoToCppLSPRangeOk :: "'m InoMapper \<Rightarrow> DocumentURI \<Rightarrow> Range \<Rightarrow> Range \<times> bool"
  EditCppText :: "'m InoMapper \<Rightarrow> DocumentURI \<Rightarrow> TextDocumentContentChangeEvent
                    \<Rightarrow> string \<times> 'm \<times> bool"
  \<comment> \<open>\<open>lsp.Range.Overlaps\<close> and \<open>textutils.ApplyLSPTextDocumentContentChangeEvent\<close>\<close>
  Overlaps :: "Range \<Rightarrow> Range \<Rightarrow> bool"
  ApplyLSPTextDocumentContentChangeEvent ::
    "TextDocumentItem \<Rightarrow> TextDocumentContentChangeEvent list \<Rightarrow> int \<Rightarrow> TextDocumentItem"

text \<open>
  The two peers. A send either succeeds or fails with an error text; a request to clangd
  is answered with a result or an error text.
\<close>

record peers =
  ClangdNotify :: "Message \<Rightarrow> string option"
  ClangdRequest :: "Message \<Rightarrow> string + Result"
  IdeNotify :: "PublishDiagnosticsParams \<Rightarrow> string option"

text \<open>
  The fields of \<open>InoHandler\<close> that the modelled methods read or write. \<open>docs\<close> is keyed by
  canonical path. \<open>inoDocsWithDiagnostics\<close>, a Go map to \<open>true\<close>, is the list of its keys.
  \<open>rebuildRequests\<close> counts the calls of \<open>scheduleRebuildEnvironment\<close>. The handler is
  modelled once clangd is running (\<open>ClangdConn\<close> is set), one message at a time. Go's
  \<open>int\<close> has 64 bits; the count of open documents and the versions stay far inside its
  range and are integers here.
\<close>

record 'm InoHandler =
  docs :: "string \<rightharpoonup> TextDocumentItem"
  sketchTrackedFilesCount :: int
  buildSketchSymbols :: "DocumentSymbol list"
  buildSketchSymbolsLoad :: bool
  buildSketchSymbolsCheck :: bool
  rebuildRequests :: nat
  sketchMapper :: "'m InoMapper"
  inoDocsWithDiagnostics :: "string list"

text \<open>The goroutines that \<open>HandleMessageFromIDE\<close> starts after a call of clangd.\<close>

datatype Task = RefreshCppDocumentSymbols | CheckCppDocumentSymbols

text \<open>
  What handling one message of the IDE did: the new state, the messages sent to clangd, the
  goroutines started, whether the process exited (\<open>handler.exit\<close>), and what was returned.
\<close>

record 'm Reply =
  handler :: "'m InoHandler"
  sentToClangd :: "Message list"
  started :: "Task list"
  exited :: bool
  returned :: "error + Result"

section \<open>Document symbols: \<open>cpp2inoDocumentSymbols\<close>\<close>

text \<open>
  The loop of \<open>cpp2inoDocumentSymbols\<close> appends to \<open>inoSymbols\<close>; \<open>continue\<close> goes on
  with the accumulator unchanged.
\<close>

function cpp2inoDocumentSymbols ::
    "'m env \<Rightarrow> 'm InoMapper \<Rightarrow> DocumentSymbol list \<Rightarrow> DocumentURI \<Rightarrow> DocumentSymbol list"
  and symbolsLoop ::
    "'m env \<Rightarrow> 'm InoMapper \<Rightarrow> DocumentURI \<Rightarrow> DocumentSymbol list \<Rightarrow> DocumentSymbol list
      \<Rightarrow> DocumentSymbol list"
where
  "cpp2inoDocumentSymbols e m origSymbols origURI =
     (if Ext e origURI \<noteq> ''.ino'' \<or> length origSymbols = 0 then origSymbols
      else symbolsLoop e m origURI origSymbols [])"
| "symbolsLoop e m origURI [] inoSymbols = inoSymbols"
| "symbolsLoop e m origURI (symbol # rest) inoSymbols =
     (if IsPreprocessedCppLine e m (Line (Start (ds_Range symbol)))
      then symbolsLoop e m origURI rest inoSymbols
      else
        let (inoFile, inoRange) = CppToInoRange e m (ds_Range symbol);
            (inoSelectionURI, inoSelectionRange) = CppToInoRange e m (SelectionRange symbol)
        in if inoFile \<noteq> inoSelectionURI then symbolsLoop e m origURI rest inoSymbols
           else if inoFile \<noteq> Unbox e origURI then symbolsLoop e m origURI rest inoSymbols
           else symbolsLoop e m origURI rest
                  (inoSymbols @
                    [DocumentSymbol (Name symbol) (Detail symbol) (Kind symbol) (Deprecated symbol)
                       inoRange inoSelectionRange
                       (cpp2inoDocumentSymbols e m (Children symbol) origURI)]))"
  by pat_completeness auto
termination
proof (relation "measure (\<lambda>x. case x of
          Inl (e, m, syms, uri) \<Rightarrow> 2 * size_list size syms + 1
        | Inr (e, m, uri, syms, acc) \<Rightarrow> 2 * size_list size syms)", goal_cases)
  case (6 e m origURI symbol rest)
  have "size_list size (Children symbol) < size symbol"
    by (cases symbol) simp
  then show ?case by simp
qed auto

section \<open>From the IDE to clangd\<close>

subsection \<open>URIs and positions\<close>

definition ino2cppDocumentURI :: "'m env \<Rightarrow> DocumentURI \<Rightarrow> error + DocumentURI" where
  "ino2cppDocumentURI e inoURI =
     (if Ext e inoURI = ''.ino'' then Inr (buildSketchCppURI e)
      else case IsInsideSketchRoot e inoURI of
          Inl err \<Rightarrow> Inl (UnknownURI inoURI)
        | Inr inside \<Rightarrow>
            if \<not> inside then Inr inoURI
            else (case SketchRootRelTo e inoURI of
                Inr rel \<Rightarrow> Inr (BuildSketchRootJoin e rel)
              | Inl err \<Rightarrow> Inl (PathError err)))"

definition ino2cppTextDocumentIdentifier :: "'m env \<Rightarrow> DocumentURI \<Rightarrow> error + DocumentURI" where
  "ino2cppTextDocumentIdentifier e doc = ino2cppDocumentURI e doc"

definition ino2cppTextDocumentItem ::
    "'m env \<Rightarrow> 'm InoHandler \<Rightarrow> TextDocumentItem \<Rightarrow> error + TextDocumentItem" where
  "ino2cppTextDocumentItem e h inoItem =
     (case ino2cppDocumentURI e (td_URI inoItem) of
        Inl err \<Rightarrow> Inl err
      | Inr cppURI \<Rightarrow>
          if EquivalentToBuildSketchCpp e cppURI
          then Inr \<lparr>td_URI = cppURI, td_LanguageID = ''cpp'',
                    td_Version = CppText_Version (sketchMapper h),
                    td_Text = CppText_Text (sketchMapper h)\<rparr>
          else (case docs h (Canonical e (td_URI inoItem)) of
              None \<Rightarrow> Inl (Panic ''nil pointer dereference'')
            | Some d \<Rightarrow>
                Inr \<lparr>td_URI = cppURI, td_LanguageID = td_LanguageID inoItem,
                      td_Version = td_Version d, td_Text = td_Text d\<rparr>))"

definition ino2cppTextDocumentPositionParams ::
    "'m env \<Rightarrow> 'm InoHandler \<Rightarrow> TextDocumentPositionParams \<Rightarrow> error + TextDocumentPositionParams"
where
  "ino2cppTextDocumentPositionParams e h inoParams =
     (case ino2cppTextDocumentIdentifier e (tp_URI inoParams) of
        Inl err \<Rightarrow> Inl err
      | Inr cppDoc \<Rightarrow>
          if Ext e (tp_URI inoParams) = ''.ino''
          then (case InoToCppLineOk e (sketchMapper h) (tp_URI inoParams)
                       (Line (tp_Position inoParams)) of
              (cppLine, ok) \<Rightarrow>
                if ok
                then Inr \<lparr>tp_URI = cppDoc, tp_Position = (tp_Position inoParams)\<lparr>Line := cppLine\<rparr>\<rparr>
                else Inl (UnknownURI (tp_URI inoParams)))
          else Inr \<lparr>tp_URI = cppDoc, tp_Position = tp_Position inoParams\<rparr>)"

subsection \<open>Results of clangd: \<open>transformClangdResult\<close>\<close>

text \<open>The loop over the completion items, appending the kept ones to \<open>newItems\<close>.\<close>

fun completionItems ::
    "'m env \<Rightarrow> 'm InoMapper \<Rightarrow> bool \<Rightarrow> CompletionItem list \<Rightarrow> CompletionItem list
      \<Rightarrow> CompletionItem list" where
  "completionItems e m cppToIno [] newItems = newItems"
| "completionItems e m cppToIno (item # rest) newItems =
     (if \<not> (take 1 (InsertText item) = ''_'')
      then completionItems e m cppToIno rest
             (newItems @
               [case ci_TextEdit item of
                  Some te \<Rightarrow>
                    if cppToIno
                    then item\<lparr>ci_TextEdit := Some (te\<lparr>te_Range := snd (CppToInoRange e m (te_Range te))\<rparr>)\<rparr>
                    else item
                | None \<Rightarrow> item])
      else completionItems e m cppToIno rest newItems)"

text \<open>
  The cases \<open>*lsp.Hover\<close>, \<open>*lsp.CompletionList\<close> and
  \<open>*lsp.DocumentSymbolArrayOrSymbolInformationArray\<close> of the type switch; any other value
  is returned as it is. \<open>cpp2inoSymbolInformation\<close> panics, and so does the dereference of
  a hover without range.
\<close>

definition transformClangdResult ::
    "'m env \<Rightarrow> 'm InoHandler \<Rightarrow> DocumentURI \<Rightarrow> DocumentURI \<Rightarrow> Result \<Rightarrow> error + Result" where
  "transformClangdResult e h inoURI cppURI result =
     (let cppToIno = (inoURI \<noteq> NilURI \<and> EquivalentToBuildSketchCpp e inoURI) in
      case result of
        HoverResult r \<Rightarrow>
          if length (Value (Contents r)) = 0 then Inr Nil
          else if cppToIno
          then (case hv_Range r of
              None \<Rightarrow> Inl (Panic ''nil pointer dereference'')
            | Some rg \<Rightarrow>
                Inr (HoverResult (r\<lparr>hv_Range := Some (snd (CppToInoRange e (sketchMapper h) rg))\<rparr>)))
          else Inr (HoverResult r)
      | CompletionResult r \<Rightarrow>
          Inr (CompletionResult
                (r\<lparr>Items := completionItems e (sketchMapper h) cppToIno (Items r) []\<rparr>))
      | SymbolsResult (DocumentSymbolArray a) \<Rightarrow>
          Inr (DocumentSymbols (cpp2inoDocumentSymbols e (sketchMapper h) a inoURI))
      | SymbolsResult (SymbolInformationArray a) \<Rightarrow> Inl (Panic ''not implemented'')
      | SymbolsResult NullSymbols \<Rightarrow> Inr result
      | _ \<Rightarrow> Inr result)"

subsection \<open>\<open>didOpen\<close>, \<open>didClose\<close>, \<open>didChange\<close>\<close>

text \<open>
  Each returns the new state and, as the Go function does, either an error or the
  parameters to forward, \<open>None\<close> for the \<open>nil\<close> that stops the notification.
\<close>

definition didOpen ::
    "'m env \<Rightarrow> 'm InoHandler \<Rightarrow> TextDocumentItem
      \<Rightarrow> 'm InoHandler \<times> (error + TextDocumentItem option)" where
  "didOpen e h inoItem =
     (let h1 = h\<lparr>docs := (docs h)(Canonical e (td_URI inoItem) \<mapsto> inoItem)\<rparr> in
      if Ext e (td_URI inoItem) = ''.ino''
      then (let h2 = h1\<lparr>sketchTrackedFilesCount := sketchTrackedFilesCount h1 + 1\<rparr> in
            if sketchTrackedFilesCount h2 \<noteq> 1 then (h2, Inr None)
            else (let h3 = h2\<lparr>buildSketchSymbolsLoad := True\<rparr> in
                  (h3, map_sum id Some (ino2cppTextDocumentItem e h3 inoItem))))
      else (h1, map_sum id Some (ino2cppTextDocumentItem e h1 inoItem)))"

definition didClose ::
    "'m env \<Rightarrow> 'm InoHandler \<Rightarrow> DocumentURI \<Rightarrow> 'm InoHandler \<times> (error + DocumentURI option)" where
  "didClose e h inoIdentifier =
     (case docs h (Canonical e inoIdentifier) of
        None \<Rightarrow> (h, Inl (UnknownURI inoIdentifier))
      | Some d \<Rightarrow>
          (let h1 = h\<lparr>docs := (docs h)(Canonical e inoIdentifier := None)\<rparr> in
           if Ext e inoIdentifier = ''.ino''
           then (let h2 = h1\<lparr>sketchTrackedFilesCount := sketchTrackedFilesCount h1 - 1\<rparr> in
                 if sketchTrackedFilesCount h2 \<noteq> 0 then (h2, Inr None)
                 else (h2, map_sum id Some (ino2cppTextDocumentIdentifier e inoIdentifier)))
           else (h1, map_sum id Some (ino2cppTextDocumentIdentifier e inoIdentifier))))"

text \<open>
  Modelled from the spec: \<open>scheduleRebuildEnvironment\<close> is not in \<open>handler.go\<close>; it sets
  the rebuild deadline to now plus the delay. The clock is left out: the state counts the
  calls.
\<close>

definition scheduleRebuildEnvironment :: "'m InoHandler \<Rightarrow> 'm InoHandler" where
  "scheduleRebuildEnvironment h = h\<lparr>rebuildRequests := Suc (rebuildRequests h)\<rparr>"

text \<open>
  Modelled from the spec: \<open>InoMapper.ApplyTextChange\<close> is not in \<open>handler.go\<close>. The spec's
  incremental edit applies the change to the stored text, shifts the line tables, bumps
  the version of the text by 1 and returns the dirty flag. The new text, the new tables
  and the flag are the environment's (\<open>EditCppText\<close>); the version is written out.
\<close>

definition ApplyTextChange ::
    "'m env \<Rightarrow> 'm InoMapper \<Rightarrow> DocumentURI \<Rightarrow> TextDocumentContentChangeEvent
      \<Rightarrow> 'm InoMapper \<times> bool" where
  "ApplyTextChange e m inoURI inoChange =
     (case EditCppText e m inoURI inoChange of
        (text', tables', dirty) \<Rightarrow>
          (m\<lparr>CppText_Text := text', CppText_Version := CppText_Version m + 1,
              lineTables := tables'\<rparr>, dirty))"

text \<open>
  The loop of \<open>didChange\<close> over the content changes of a \<open>.ino\<close> document. It stops at
  the first change whose range is \<open>nil\<close> or does not convert, keeping what the earlier
  changes did to the state.
\<close>

fun cppChangesLoop ::
    "'m env \<Rightarrow> DocumentURI \<Rightarrow> TextDocumentContentChangeEvent list \<Rightarrow> 'm InoHandler
      \<Rightarrow> TextDocumentContentChangeEvent list
      \<Rightarrow> 'm InoHandler \<times> (error + TextDocumentContentChangeEvent list)" where
  "cppChangesLoop e uri [] h cppChanges = (h, Inr cppChanges)"
| "cppChangesLoop e uri (inoChange # rest) h cppChanges =
     (case ce_Range inoChange of
        None \<Rightarrow> (h, Inl (Panic ''nil pointer dereference''))
      | Some inoRange \<Rightarrow>
          (case InoToCppLSPRangeOk e (sketchMapper h) uri inoRange of
             (cppRange, ok) \<Rightarrow>
               if \<not> ok then (h, Inl (InvalidChangeRange uri inoRange))
               else
                 (let dirty0 = list_ex (\<lambda>sym. Overlaps e (ds_Range sym) cppRange)
                                 (buildSketchSymbols h);
                      (m', mapperDirty) = ApplyTextChange e (sketchMapper h) uri inoChange;
                      h1 = h\<lparr>sketchMapper := m'\<rparr>;
                      h2 = (if dirty0 \<or> mapperDirty then scheduleRebuildEnvironment h1 else h1)
                  in cppChangesLoop e uri rest h2
                       (cppChanges @
                         [\<lparr>ce_Range = Some cppRange, ce_RangeLength = ce_RangeLength inoChange,
                           ce_Text = ce_Text inoChange\<rparr>]))))"

definition didChange ::
    "'m env \<Rightarrow> 'm InoHandler \<Rightarrow> DocumentURI \<Rightarrow> int \<Rightarrow> TextDocumentContentChangeEvent list
      \<Rightarrow> 'm InoHandler \<times> (error + Message option)" where
  "didChange e h uri version contentChanges =
     (case docs h (Canonical e uri) of
        None \<Rightarrow> (h, Inl (UnknownURI uri))
      | Some trackedDoc \<Rightarrow>
          (let h1 = h\<lparr>docs := (docs h)(Canonical e uri \<mapsto>
                      ApplyLSPTextDocumentContentChangeEvent e trackedDoc contentChanges version)\<rparr>
           in if Ext e uri = ''.ino''
              then (case cppChangesLoop e uri contentChanges h1 [] of
                  (h2, Inl err) \<Rightarrow> (h2, Inl err)
                | (h2, Inr cppChanges) \<Rightarrow>
                    (h2, Inr (Some (DidChange (buildSketchCppURI e)
                                     (CppText_Version (sketchMapper h2)) cppChanges))))
              else (case ino2cppDocumentURI e uri of
                  Inl err \<Rightarrow> (h1, Inl err)
                | Inr cppURI \<Rightarrow> (h1, Inr (Some (DidChange cppURI version contentChanges))))))"

subsection \<open>\<open>HandleMessageFromIDE\<close>\<close>

definition Notif :: "Message \<Rightarrow> bool" where
  "Notif req = (case req of DidOpen _ \<Rightarrow> True | DidClose _ \<Rightarrow> True | DidChange _ _ _ \<Rightarrow> True
                | _ \<Rightarrow> False)"

text \<open>\<open>strings.Contains\<close>.\<close>

fun Contains :: "string \<Rightarrow> string \<Rightarrow> bool" where
  "Contains [] substr = (substr = [])"
| "Contains (c # cs) substr = (take (length substr) (c # cs) = substr \<or> Contains cs substr)"

definition severe :: "string \<Rightarrow> bool" where
  "severe err = (err = ''context deadline exceeded''
                 \<or> Contains err ''non-added document'' \<or> Contains err ''non-added file'')"

text \<open>A return before anything is sent to clangd.\<close>

definition returns :: "'m InoHandler \<Rightarrow> error + Result \<Rightarrow> 'm Reply" where
  "returns h r = \<lparr>handler = h, sentToClangd = [], started = [], exited = False, returned = r\<rparr>"

text \<open>
  The end of \<open>HandleMessageFromIDE\<close>, from the send to clangd on: the two flags start their
  goroutines when the call succeeded, a severe error exits the process, and a result that
  is not \<open>nil\<close> goes through \<open>transformClangdResult\<close>.
\<close>

definition sendToClangd ::
    "'m env \<Rightarrow> peers \<Rightarrow> 'm InoHandler \<Rightarrow> Message \<Rightarrow> DocumentURI \<Rightarrow> DocumentURI \<Rightarrow> 'm Reply"
where
  "sendToClangd e c h params inoURI cppURI =
     (let (result, err) =
            (if Notif params then (Nil, ClangdNotify c params)
             else (case ClangdRequest c params of
                 Inl s \<Rightarrow> (Nil, Some s)
               | Inr r \<Rightarrow> (r, None)));
          load = (err = None \<and> buildSketchSymbolsLoad h);
          h1 = (if load then h\<lparr>buildSketchSymbolsLoad := False\<rparr> else h);
          check = (err = None \<and> buildSketchSymbolsCheck h1);
          h2 = (if check then h1\<lparr>buildSketchSymbolsCheck := False\<rparr> else h1);
          tasks = (if load then [RefreshCppDocumentSymbols] else [])
                  @ (if check then [CheckCppDocumentSymbols] else [])
      in case err of
           Some s \<Rightarrow>
             \<lparr>handler = h2, sentToClangd = [params], started = tasks, exited = severe s,
              returned = Inl (ConnError s)\<rparr>
         | None \<Rightarrow>
             \<lparr>handler = h2, sentToClangd = [params], started = tasks, exited = False,
              returned = (if result \<noteq> Nil then transformClangdResult e h2 inoURI cppURI result
                          else Inr Nil)\<rparr>)"

text \<open>
  The cases of the type switch. In the case of \<open>didClose\<close> the branch for an error of
  \<open>handler.didClose\<close> is empty: \<open>err\<close> and \<open>params\<close> stay as they were, and the
  notification of the IDE goes on to clangd.
\<close>

definition HandleMessageFromIDE :: "'m env \<Rightarrow> peers \<Rightarrow> 'm InoHandler \<Rightarrow> Message \<Rightarrow> 'm Reply" where
  "HandleMessageFromIDE e c h req =
     (case req of
        DidOpen p \<Rightarrow>
          (case didOpen e h p of
             (h', Inl err) \<Rightarrow> returns h' (Inl err)
           | (h', Inr None) \<Rightarrow> returns h' (Inr Nil)
           | (h', Inr (Some res)) \<Rightarrow> sendToClangd e c h' (DidOpen res) (td_URI p) NilURI)
      | DidClose p \<Rightarrow>
          (case didClose e h p of
             (h', Inl err) \<Rightarrow> sendToClangd e c h' (DidClose p) p NilURI
           | (h', Inr None) \<Rightarrow> returns h' (Inr Nil)
           | (h', Inr (Some res)) \<Rightarrow> sendToClangd e c h' (DidClose res) p NilURI)
      | DidChange uri version contentChanges \<Rightarrow>
          (case didChange e h uri version contentChanges of
             (h', Inl err) \<Rightarrow> returns h' (Inl err)
           | (h', Inr None) \<Rightarrow> returns h' (Inr Nil)
           | (h', Inr (Some res)) \<Rightarrow>
               \<lparr>handler = h', sentToClangd = [res], started = [], exited = False,
                returned = (case ClangdNotify c res of
                              None \<Rightarrow> Inr Nil
                            | Some s \<Rightarrow> Inl (ConnError s))\<rparr>)
      | CompletionReq p \<Rightarrow>
          (case ino2cppTextDocumentPositionParams e h p of
             Inl err \<Rightarrow> returns h (Inl err)
           | Inr res \<Rightarrow> sendToClangd e c h (CompletionReq res) (tp_URI p) NilURI)
      | HoverReq p \<Rightarrow>
          (case ino2cppTextDocumentPositionParams e h p of
             Inl err \<Rightarrow> returns h (Inl err)
           | Inr res \<Rightarrow> sendToClangd e c h (HoverReq res) (tp_URI p) NilURI)
      | DocumentSymbolReq uri \<Rightarrow>
          (case ino2cppTextDocumentIdentifier e uri of
             Inl err \<Rightarrow> returns h (Inl err)
           | Inr res \<Rightarrow> sendToClangd e c h (DocumentSymbolReq res) uri NilURI))"

subsection \<open>A run of messages\<close>

text \<open>
  The notifications \<open>didOpen\<close>, \<open>didChange\<close> and \<open>didClose\<close> are handled under the write
  lock, one after the other, each on the state its predecessor left. A run ends when the
  process exits.
\<close>

fun HandleMessagesFromIDE ::
    "'m env \<Rightarrow> peers \<Rightarrow> 'm InoHandler \<Rightarrow> Message list \<Rightarrow> 'm Reply list" where
  "HandleMessagesFromIDE e c h [] = []"
| "HandleMessagesFromIDE e c h (req # reqs) =
     (let r = HandleMessageFromIDE e c h req in
      if exited r then [r] else r # HandleMessagesFromIDE e c (handler r) reqs)"

definition finalHandler :: "'m InoHandler \<Rightarrow> 'm Reply list \<Rightarrow> 'm InoHandler" where
  "finalHandler h replies = (if replies = [] then h else handler (last replies))"

text \<open>The version of the synthetic unit, \<open>handler.sketchMapper.CppText.Version\<close>.\<close>

definition cppVersion :: "'m InoHandler \<Rightarrow> int" where
  "cppVersion h = CppText_Version (sketchMapper h)"

definition inoChange :: "'m env \<Rightarrow> Message \<Rightarrow> bool" where
  "inoChange e req =
     (case req of DidChange uri version changes \<Rightarrow> Ext e uri = ''.ino'' | _ \<Rightarrow> False)"

definition contentChanges :: "Message \<Rightarrow> TextDocumentContentChangeEvent list" where
  "contentChanges req = (case req of DidChange uri version changes \<Rightarrow> changes | _ \<Rightarrow> [])"

text \<open>
  What a \<open>didChange\<close> on a \<open>.ino\<close> document asks of its content changes, and what it makes
  of them. The changes convert when each carries a range that the mapper converts, the
  mapper being the one the changes before it have left. The translated change keeps the
  text and the range length and carries the converted range.
\<close>

fun changesConvert ::
    "'m env \<Rightarrow> DocumentURI \<Rightarrow> TextDocumentContentChangeEvent list \<Rightarrow> 'm InoMapper \<Rightarrow> bool" where
  "changesConvert e uri [] m = True"
| "changesConvert e uri (change # rest) m =
     (case ce_Range change of
        None \<Rightarrow> False
      | Some inoRange \<Rightarrow>
          snd (InoToCppLSPRangeOk e m uri inoRange)
          \<and> changesConvert e uri rest (fst (ApplyTextChange e m uri change)))"

fun translatedChanges ::
    "'m env \<Rightarrow> DocumentURI \<Rightarrow> TextDocumentContentChangeEvent list \<Rightarrow> 'm InoMapper
      \<Rightarrow> TextDocumentContentChangeEvent list" where
  "translatedChanges e uri [] m = []"
| "translatedChanges e uri (change # rest) m =
     (case ce_Range change of
        None \<Rightarrow> []
      | Some inoRange \<Rightarrow>
          \<lparr>ce_Range = Some (fst (InoToCppLSPRangeOk e m uri inoRange)),
           ce_RangeLength = ce_RangeLength change, ce_Text = ce_Text change\<rparr>
          # translatedChanges e uri rest (fst (ApplyTextChange e m uri change)))"

section \<open>The top-level function symbols\<close>

text \<open>
  \<open>refreshCppDocumentSymbols\<close> asks clangd for the symbols of the synthetic unit, passes the
  answer through \<open>transformClangdResult\<close> with the unit's own URI in the place of the
  \<open>.ino\<close> URI, and keeps the function symbols. It returns the error, if any.
\<close>

definition refreshCppDocumentSymbols ::
    "'m env \<Rightarrow> peers \<Rightarrow> 'm InoHandler \<Rightarrow> 'm InoHandler \<times> error option" where
  "refreshCppDocumentSymbols e c h =
     (let cppURI = buildSketchCppURI e in
      case ClangdRequest c (DocumentSymbolReq cppURI) of
        Inl s \<Rightarrow> (h, Some (ConnError s))
      | Inr result \<Rightarrow>
          (case transformClangdResult e h cppURI NilURI result of
             Inl err \<Rightarrow> (h, Some err)
           | Inr (DocumentSymbols symbols) \<Rightarrow>
               (h\<lparr>buildSketchSymbols := filter (\<lambda>symbol. Kind symbol = SKFunction) symbols\<rparr>,
                None)
           | Inr _ \<Rightarrow> (h, Some InvalidResponse)))"

text \<open>
  The loop of \<open>checkCppDocumentSymbols\<close> over the indices of the old list: whether some
  index from \<open>i\<close> on holds two different names.
\<close>

function namesDiffer :: "DocumentSymbol list \<Rightarrow> DocumentSymbol list \<Rightarrow> nat \<Rightarrow> bool" where
  "namesDiffer oldSymbols newSymbols i =
     (if i < length oldSymbols
      then (if Name (oldSymbols ! i) \<noteq> Name (newSymbols ! i) then True
            else namesDiffer oldSymbols newSymbols (Suc i))
      else False)"
  by pat_completeness auto
termination
  by (relation "measure (\<lambda>(oldSymbols, newSymbols, i). length oldSymbols - i)") auto

declare namesDiffer.simps [simp del]

definition checkCppDocumentSymbols ::
    "'m env \<Rightarrow> peers \<Rightarrow> 'm InoHandler \<Rightarrow> 'm InoHandler \<times> error option" where
  "checkCppDocumentSymbols e c h =
     (let oldSymbols = buildSketchSymbols h in
      case refreshCppDocumentSymbols e c h of
        (h', Some err) \<Rightarrow> (h', Some err)
      | (h', None) \<Rightarrow>
          if length oldSymbols \<noteq> length (buildSketchSymbols h')
          then (scheduleRebuildEnvironment h', None)
          else if namesDiffer oldSymbols (buildSketchSymbols h') 0
          then (scheduleRebuildEnvironment h', None)
          else (h', None))"

section \<open>From clangd to the IDE: diagnostics\<close>

definition inoDocumentURIFromInoPath ::
    "'m env \<Rightarrow> 'm InoHandler \<Rightarrow> string \<Rightarrow> error + DocumentURI" where
  "inoDocumentURIFromInoPath e h inoPath =
     (if inoPath = NotInoFile e then Inr (NotInoURI e)
      else case docs h inoPath of
          None \<Rightarrow> Inl (UnknownURI (NewDocumentURI e inoPath))
        | Some doc \<Rightarrow> Inr (td_URI doc))"

definition cpp2inoDocumentURI ::
    "'m env \<Rightarrow> 'm InoHandler \<Rightarrow> DocumentURI \<Rightarrow> Range \<Rightarrow> error + DocumentURI \<times> Range" where
  "cpp2inoDocumentURI e h cppURI cppRange =
     (if EquivalentToBuildSketchCpp e cppURI
      then (case CppToInoRangeOk e (sketchMapper h) cppRange of
          (inoPath, inoRange, err) \<Rightarrow>
            (case err of
               Some (MapperError s) \<Rightarrow> Inl (MapError (MapperError s))
             | _ \<Rightarrow>
                 (case inoDocumentURIFromInoPath e h inoPath of
                    Inl err' \<Rightarrow> Inl err'
                  | Inr inoURI \<Rightarrow> Inr (inoURI, inoRange))))
      else case IsInsideBuildSketchRoot e cppURI of
          Inl err \<Rightarrow> Inl (PathError err)
        | Inr inside \<Rightarrow>
            if \<not> inside then Inr (cppURI, cppRange)
            else (case BuildSketchRootRelTo e cppURI of
                Inr rel \<Rightarrow> Inr (SketchRootJoin e rel, cppRange)
              | Inl err \<Rightarrow> Inl (PathError err)))"

text \<open>
  \<open>convertedDiagnostics\<close>, a Go map from URI to batch, is the list of its batches in the
  order of their creation; Go leaves the order open in which the batches are read back.
\<close>

fun addDiagnostic ::
    "PublishDiagnosticsParams list \<Rightarrow> DocumentURI \<Rightarrow> Diagnostic \<Rightarrow> PublishDiagnosticsParams list"
where
  "addDiagnostic [] inoURI inoDiag = [\<lparr>pd_URI = inoURI, Diagnostics = [inoDiag]\<rparr>]"
| "addDiagnostic (b # bs) inoURI inoDiag =
     (if pd_URI b = inoURI then b\<lparr>Diagnostics := Diagnostics b @ [inoDiag]\<rparr> # bs
      else b # addDiagnostic bs inoURI inoDiag)"

fun convertDiagnostics ::
    "'m env \<Rightarrow> 'm InoHandler \<Rightarrow> DocumentURI \<Rightarrow> Diagnostic list \<Rightarrow> PublishDiagnosticsParams list
      \<Rightarrow> error + PublishDiagnosticsParams list" where
  "convertDiagnostics e h cppURI [] convertedDiagnostics = Inr convertedDiagnostics"
| "convertDiagnostics e h cppURI (cppDiag # rest) convertedDiagnostics =
     (case cpp2inoDocumentURI e h cppURI (dg_Range cppDiag) of
        Inl err \<Rightarrow> Inl err
      | Inr (inoURI, inoRange) \<Rightarrow>
          convertDiagnostics e h cppURI rest
            (addDiagnostic convertedDiagnostics inoURI (cppDiag\<lparr>dg_Range := inoRange\<rparr>)))"

definition cpp2inoDiagnostics ::
    "'m env \<Rightarrow> 'm InoHandler \<Rightarrow> PublishDiagnosticsParams \<Rightarrow> error + PublishDiagnosticsParams list"
where
  "cpp2inoDiagnostics e h cppDiags =
     (if length (Diagnostics cppDiags) = 0
      then (if EquivalentToBuildSketchCpp e (pd_URI cppDiags) then Inr []
            else (case cpp2inoDocumentURI e h (pd_URI cppDiags) NilRange of
                Inl err \<Rightarrow> Inl err
              | Inr (inoURI, r) \<Rightarrow> Inr [\<lparr>pd_URI = inoURI, Diagnostics = []\<rparr>]))
      else convertDiagnostics e h (pd_URI cppDiags) (Diagnostics cppDiags) [])"

text \<open>
  The state of the loops of \<open>FromClangd\<close> over the batches: the handler (its
  \<open>buildSketchSymbolsCheck\<close> flag is raised on the way), the new set
  \<open>inoDocsWithDiagnostics\<close>, the flag \<open>cleanUpInoDiagnostics\<close>, and what the IDE was sent.
\<close>

record 'm FanOut =
  fo_handler :: "'m InoHandler"
  fo_inoDocsWithDiagnostics :: "string list"
  cleanUpInoDiagnostics :: bool
  sentToIDE :: "PublishDiagnosticsParams list"

definition undeclared :: "Diagnostic \<Rightarrow> bool" where
  "undeclared diag =
     (Code diag = ''undeclared_var_use_suggest'' \<or> Code diag = ''undeclared_var_use'')"

text \<open>The first loop: it stops with the error of the first send that fails.\<close>

fun publishLoop ::
    "'m env \<Rightarrow> peers \<Rightarrow> PublishDiagnosticsParams list \<Rightarrow> 'm FanOut \<Rightarrow> 'm FanOut \<times> error option"
where
  "publishLoop e c [] s = (s, None)"
| "publishLoop e c (inoDiag # rest) s =
     (if pd_URI inoDiag = NotInoURI e
      then publishLoop e c rest (s\<lparr>cleanUpInoDiagnostics := True\<rparr>)
      else
        (let s1 =
               (if Ext e (pd_URI inoDiag) = ''.ino''
                then s\<lparr>fo_inoDocsWithDiagnostics :=
                          List.insert (Canonical e (pd_URI inoDiag)) (fo_inoDocsWithDiagnostics s),
                        cleanUpInoDiagnostics := True,
                        fo_handler :=
                          (if list_ex undeclared (Diagnostics inoDiag)
                           then (fo_handler s)\<lparr>buildSketchSymbolsCheck := True\<rparr>
                           else fo_handler s)\<rparr>
                else s)
         in case IdeNotify c inoDiag of
              Some err \<Rightarrow> (s1, Some (ConnError err))
            | None \<Rightarrow> publishLoop e c rest (s1\<lparr>sentToIDE := sentToIDE s1 @ [inoDiag]\<rparr>)))"

text \<open>The second loop, over the paths of the previous set.\<close>

fun clearLoop ::
    "'m env \<Rightarrow> peers \<Rightarrow> string list \<Rightarrow> 'm FanOut \<Rightarrow> 'm FanOut \<times> error option" where
  "clearLoop e c [] s = (s, None)"
| "clearLoop e c (sourcePath # rest) s =
     (if sourcePath \<in> set (fo_inoDocsWithDiagnostics s) then clearLoop e c rest s
      else
        (let msg = \<lparr>pd_URI = NewDocumentURI e sourcePath, Diagnostics = []\<rparr> in
         case IdeNotify c msg of
           Some err \<Rightarrow> (s, Some (ConnError err))
         | None \<Rightarrow> clearLoop e c rest (s\<lparr>sentToIDE := sentToIDE s @ [msg]\<rparr>)))"

text \<open>
  The case \<open>*lsp.PublishDiagnosticsParams\<close> of \<open>FromClangd\<close>: the new state, what the IDE
  was sent, and the error returned.
\<close>

definition FromClangd ::
    "'m env \<Rightarrow> peers \<Rightarrow> 'm InoHandler \<Rightarrow> PublishDiagnosticsParams
      \<Rightarrow> 'm InoHandler \<times> PublishDiagnosticsParams list \<times> error option" where
  "FromClangd e c h p =
     (case cpp2inoDiagnostics e h p of
        Inl err \<Rightarrow> (h, [], Some err)
      | Inr inoDiagnostics \<Rightarrow>
          (case publishLoop e c inoDiagnostics
                  \<lparr>fo_handler = h, fo_inoDocsWithDiagnostics = [],
                   cleanUpInoDiagnostics = (length inoDiagnostics = 0), sentToIDE = []\<rparr> of
             (s, Some err) \<Rightarrow> (fo_handler s, sentToIDE s, Some err)
           | (s, None) \<Rightarrow>
               if cleanUpInoDiagnostics s
               then (case clearLoop e c (inoDocsWithDiagnostics (fo_handler s)) s of
                   (s', Some err) \<Rightarrow> (fo_handler s', sentToIDE s', Some err)
                 | (s', None) \<Rightarrow>
                     ((fo_handler s')\<lparr>inoDocsWithDiagnostics := fo_inoDocsWithDiagnostics s'\<rparr>,
                      sentToIDE s', None))
               else (fo_handler s, sentToIDE s, None)))"

text \<open>
  What a notification of clangd amounts to, in terms of the batches it converts to: the
  batches published (all but the one of the sentinel), the paths of the new set (the
  published batches of \<open>.ino\<close> documents), whether the clearing pass runs, and the empty
  batch that clears a path.
\<close>

definition published ::
    "'m env \<Rightarrow> PublishDiagnosticsParams list \<Rightarrow> PublishDiagnosticsParams list" where
  "published e batches = filter (\<lambda>b. pd_URI b \<noteq> NotInoURI e) batches"

definition inoPaths :: "'m env \<Rightarrow> PublishDiagnosticsParams list \<Rightarrow> string list" where
  "inoPaths e batches =
     map (\<lambda>b. Canonical e (pd_URI b))
       (filter (\<lambda>b. pd_URI b \<noteq> NotInoURI e \<and> Ext e (pd_URI b) = ''.ino'') batches)"

definition cleanUpGate :: "'m env \<Rightarrow> PublishDiagnosticsParams list \<Rightarrow> bool" where
  "cleanUpGate e batches =
     (batches = []
      \<or> list_ex (\<lambda>b. pd_URI b = NotInoURI e \<or> Ext e (pd_URI b) = ''.ino'') batches)"

definition clearMessage :: "'m env \<Rightarrow> string \<Rightarrow> PublishDiagnosticsParams" where
  "clearMessage e sourcePath = \<lparr>pd_URI = NewDocumentURI e sourcePath, Diagnostics = []\<rparr>"

definition staleMessages ::
    "'m env \<Rightarrow> PublishDiagnosticsParams list \<Rightarrow> string list \<Rightarrow> PublishDiagnosticsParams list"
where
  "staleMessages e batches previous =
     map (clearMessage e) (filter (\<lambda>path. path \<notin> set (inoPaths e batches)) previous)"

section \<open>The formatter configuration: \<open>createClangdFormatterConfig\<close>\<close>

text \<open>
  The file system and the path arithmetic of \<open>paths.Path\<close> are the environment's. A read
  gives the content or fails; a write fails with an error text or succeeds.
\<close>

type_synonym path = string

record files =
  Exist :: "path \<Rightarrow> bool"
  ReadFile :: "path \<Rightarrow> string + string"
  WriteFile :: "path \<Rightarrow> string \<Rightarrow> string option"
  IsNotDir :: "path \<Rightarrow> bool"
  Parent :: "path \<Rightarrow> path"
  Join :: "path \<Rightarrow> string \<Rightarrow> path"
  AsPath :: "DocumentURI \<Rightarrow> path"

text \<open>The fields of \<open>INOLanguageServer\<close> the function reads; \<open>FormatterConf\<close> may be \<open>nil\<close>.\<close>

record INOLanguageServer =
  sketchRoot :: path
  FormatterConf :: "path option"

text \<open>The baked-in configuration, line by line; each line ends with a line feed.\<close>

definition defaultConfigLines :: "string list" where
  "defaultConfigLines =
     [''# Source: https://github.com/arduino/tooling-project-assets/tree/main/other/clang-format-configuration'',
      ''---'',
      ''AccessModifierOffset: -2'',
      ''AlignAfterOpenBracket: Align'',
      ''AlignArrayOfStructures: None'',
      ''AlignConsecutiveAssignments: None'',
      ''AlignConsecutiveBitFields: None'',
      ''AlignConsecutiveDeclarations: None'',
      ''AlignConsecutiveMacros: None'',
      ''AlignEscapedNewlines: DontAlign'',
      ''AlignOperands: Align'',
      ''AlignTrailingComments: true'',
      ''AllowAllArgumentsOnNextLine: true'',
      ''AllowAllConstructorInitializersOnNextLine: true'',
      ''AllowAllParametersOfDeclarationOnNextLine: true'',
      ''AllowShortBlocksOnASingleLine: Always'',
      ''AllowShortCaseLabelsOnASingleLine: true'',
      ''AllowShortEnumsOnASingleLine: true'',
      ''AllowShortFunctionsOnASingleLine: Empty'',
      ''AllowShortIfStatementsOnASingleLine: AllIfsAndElse'',
      ''AllowShortLambdasOnASingleLine: Empty'',
      ''AllowShortLoopsOnASingleLine: true'',
      ''AlwaysBreakAfterDefinitionReturnType: None'',
      ''AlwaysBreakAfterReturnType: None'',
      ''AlwaysBreakBeforeMultilineStrings: false'',
      ''AlwaysBreakTemplateDeclarations: No'',
      ''AttributeMacros:'',
      ''  - __capability'',
      ''BasedOnStyle: LLVM'',
      ''BinPackArguments: true'',
      ''BinPackParameters: true'',
      ''BitFieldColonSpacing: Both'',
      ''BraceWrapping:'',
      ''  AfterCaseLabel: false'',
      ''  AfterClass: false'',
      ''  AfterControlStatement: Never'',
      ''  AfterEnum: false'',
      ''  AfterFunction: false'',
      ''  AfterNamespace: false'',
      ''  AfterObjCDeclaration: false'',
      ''  AfterStruct: false'',
      ''  AfterUnion: false'',
      ''  AfterExternBlock: false'',
      ''  BeforeCatch: false'',
      ''  BeforeElse: false'',
      ''  BeforeLambdaBody: false'',
      ''  BeforeWhile: false'',
      ''  IndentBraces: false'',
      ''  SplitEmptyFunction: true'',
      ''  SplitEmptyRecord: true'',
      ''  SplitEmptyNamespace: true'',
      ''BreakAfterJavaFieldAnnotations: false'',
      ''BreakBeforeBinaryOperators: NonAssignment'',
      ''BreakBeforeBraces: Attach'',
      ''BreakBeforeConceptDeclarations: false'',
      ''BreakBeforeInheritanceComma: false'',
      ''BreakBeforeTernaryOperators: true'',
      ''BreakConstructorInitializers: BeforeColon'',
      ''BreakConstructorInitializersBeforeComma: false'',
      ''BreakInheritanceList: BeforeColon'',
      ''BreakStringLiterals: false'',
      ''ColumnLimit: 0'',
      ''CommentPragmas: '' @ [CHR 0x27] @ [CHR 0x27],
      ''CompactNamespaces: false'',
      ''ConstructorInitializerAllOnOneLineOrOnePerLine: false'',
      ''ConstructorInitializerIndentWidth: 2'',
      ''ContinuationIndentWidth: 2'',
      ''Cpp11BracedListStyle: false'',
      ''DeriveLineEnding: true'',
      ''DerivePointerAlignment: true'',
      ''DisableFormat: false'',
      ''EmptyLineAfterAccessModifier: Leave'',
      ''EmptyLineBeforeAccessModifier: Leave'',
      ''ExperimentalAutoDetectBinPacking: false'',
      ''FixNamespaceComments: false'',
      ''ForEachMacros:'',
      ''  - foreach'',
      ''  - Q_FOREACH'',
      ''  - BOOST_FOREACH'',
      ''IfMacros:'',
      ''  - KJ_IF_MAYBE'',
      ''IncludeBlocks: Preserve'',
      ''IncludeCategories:'',
      ''  - Regex: '' @ [CHR 0x27] @ ''^'' @ [CHR 0x22] @ ''(llvm|llvm-c|clang|clang-c)/'' @ [CHR 0x27],
      ''    Priority: 2'',
      ''    SortPriority: 0'',
      ''    CaseSensitive: false'',
      ''  - Regex: '' @ [CHR 0x27] @ ''^(<|'' @ [CHR 0x22] @ ''(gtest|gmock|isl|json)/)'' @ [CHR 0x27],
      ''    Priority: 3'',
      ''    SortPriority: 0'',
      ''    CaseSensitive: false'',
      ''  - Regex: '' @ [CHR 0x27] @ ''.*'' @ [CHR 0x27],
      ''    Priority: 1'',
      ''    SortPriority: 0'',
      ''    CaseSensitive: false'',
      ''IncludeIsMainRegex: '' @ [CHR 0x27] @ [CHR 0x27],
      ''IncludeIsMainSourceRegex: '' @ [CHR 0x27] @ [CHR 0x27],
      ''IndentAccessModifiers: false'',
      ''IndentCaseBlocks: true'',
      ''IndentCaseLabels: true'',
      ''IndentExternBlock: Indent'',
      ''IndentGotoLabels: false'',
      ''IndentPPDirectives: None'',
      ''IndentRequires: true'',
      ''IndentWidth: 2'',
      ''IndentWrappedFunctionNames: false'',
      ''InsertTrailingCommas: None'',
      ''JavaScriptQuotes: Leave'',
      ''JavaScriptWrapImports: true'',
      ''KeepEmptyLinesAtTheStartOfBlocks: true'',
      ''LambdaBodyIndentation: Signature'',
      ''Language: Cpp'',
      ''MacroBlockBegin: '' @ [CHR 0x27] @ [CHR 0x27],
      ''MacroBlockEnd: '' @ [CHR 0x27] @ [CHR 0x27],
      ''MaxEmptyLinesToKeep: 100000'',
      ''NamespaceIndentation: None'',
      ''ObjCBinPackProtocolList: Auto'',
      ''ObjCBlockIndentWidth: 2'',
      ''ObjCBreakBeforeNestedBlockParam: true'',
      ''ObjCSpaceAfterProperty: false'',
      ''ObjCSpaceBeforeProtocolList: true'',
      ''PPIndentWidth: -1'',
      ''PackConstructorInitializers: BinPack'',
      ''PenaltyBreakAssignment: 1'',
      ''PenaltyBreakBeforeFirstCallParameter: 1'',
      ''PenaltyBreakComment: 1'',
      ''PenaltyBreakFirstLessLess: 1'',
      ''PenaltyBreakOpenParenthesis: 1'',
      ''PenaltyBreakString: 1'',
      ''PenaltyBreakTemplateDeclaration: 1'',
      ''PenaltyExcessCharacter: 1'',
      ''PenaltyIndentedWhitespace: 1'',
      ''PenaltyReturnTypeOnItsOwnLine: 1'',
      ''PointerAlignment: Right'',
      ''QualifierAlignment: Leave'',
      ''ReferenceAlignment: Pointer'',
      ''ReflowComments: false'',
      ''RemoveBracesLLVM: false'',
      ''SeparateDefinitionBlocks: Leave'',
      ''ShortNamespaceLines: 0'',
      ''SortIncludes: Never'',
      ''SortJavaStaticImport: Before'',
      ''SortUsingDeclarations: false'',
      ''SpaceAfterCStyleCast: false'',
      ''SpaceAfterLogicalNot: false'',
      ''SpaceAfterTemplateKeyword: false'',
      ''SpaceAroundPointerQualifiers: Default'',
      ''SpaceBeforeAssignmentOperators: true'',
      ''SpaceBeforeCaseColon: false'',
      ''SpaceBeforeCpp11BracedList: false'',
      ''SpaceBeforeCtorInitializerColon: true'',
      ''SpaceBeforeInheritanceColon: true'',
      ''SpaceBeforeParens: ControlStatements'',
      ''SpaceBeforeParensOptions:'',
      ''  AfterControlStatements: true'',
      ''  AfterForeachMacros: true'',
      ''  AfterFunctionDefinitionName: false'',
      ''  AfterFunctionDeclarationName: false'',
      ''  AfterIfMacros: true'',
      ''  AfterOverloadedOperator: false'',
      ''  BeforeNonEmptyParentheses: false'',
      ''SpaceBeforeRangeBasedForLoopColon: true'',
      ''SpaceBeforeSquareBrackets: false'',
      ''SpaceInEmptyBlock: false'',
      ''SpaceInEmptyParentheses: false'',
      ''SpacesBeforeTrailingComments: 2'',
      ''SpacesInAngles: Leave'',
      ''SpacesInCStyleCastParentheses: false'',
      ''SpacesInConditionalStatement: false'',
      ''SpacesInContainerLiterals: false'',
      ''SpacesInLineCommentPrefix:'',
      ''  Minimum: 0'',
      ''  Maximum: -1'',
      ''SpacesInParentheses: false'',
      ''SpacesInSquareBrackets: false'',
      ''Standard: Auto'',
      ''StatementAttributeLikeMacros:'',
      ''  - Q_EMIT'',
      ''StatementMacros:'',
      ''  - Q_UNUSED'',
      ''  - QT_REQUIRE_VERSION'',
      ''TabWidth: 2'',
      ''UseCRLF: false'',
      ''UseTab: Never'',
      ''WhitespaceSensitiveMacros:'',
      ''  - STRINGIZE'',
      ''  - PP_STRINGIZE'',
      ''  - BOOST_PP_STRINGIZE'',
      ''  - NS_SWIFT_NAME'',
      ''  - CF_SWIFT_NAME'']"

definition defaultConfig :: string where
  "defaultConfig = concat (map (\<lambda>l. l @ [CHR 0x0A]) defaultConfigLines)"

text \<open>
  The closure \<open>try\<close> (here \<open>tryConf\<close>): the content of the file replaces \<open>config\<close> when the read succeeds;
  a failed read is logged and leaves \<open>config\<close> as it is.
\<close>

definition tryConf :: "files \<Rightarrow> string \<Rightarrow> path \<Rightarrow> string" where
  "tryConf fs config conf = (case ReadFile fs conf of Inl err \<Rightarrow> config | Inr c \<Rightarrow> c)"

datatype FileOp = WriteFileOp path string | RemoveOp path

text \<open>
  What the function does and returns: the write it performs, its error, and the file
  operations of the returned \<open>cleanup\<close> closure.
\<close>

record FormatterConfig =
  performed :: "FileOp list"
  cleanup :: "FileOp list"
  writeError :: "string option"

definition createClangdFormatterConfig ::
    "files \<Rightarrow> INOLanguageServer \<Rightarrow> DocumentURI \<Rightarrow> FormatterConfig" where
  "createClangdFormatterConfig fs ls cppuri =
     (let config = defaultConfig;
          sketchFormatterConf = Join fs (sketchRoot ls) ''.clang-format'';
          config =
            (if Exist fs sketchFormatterConf then tryConf fs config sketchFormatterConf
             else (case FormatterConf ls of
                 Some conf \<Rightarrow> if Exist fs conf then tryConf fs config conf else config
               | None \<Rightarrow> config));
          targetFile = AsPath fs cppuri;
          targetFile = (if IsNotDir fs targetFile then Parent fs targetFile else targetFile);
          targetFile = Join fs targetFile ''.clang-format''
      in \<lparr>performed = [WriteFileOp targetFile config],
          cleanup = [RemoveOp targetFile],
          writeError = WriteFile fs targetFile config\<rparr>)"

section \<open>A sketch to run the handler on\<close>

text \<open>
  The sketch \<open>/sketch\<close> has two tabs, \<open>Blink.ino\<close> and \<open>Tab2.ino\<close>. Its synthetic unit
  \<open>/build/sketch/Blink.ino.cpp\<close> holds the generated prototypes on lines 0 to 9, the 30
  lines of \<open>Blink.ino\<close> on lines 10 to 39 and \<open>Tab2.ino\<close> from line 40 on. No file is a link
  to another, so only the unit's own URI is equivalent to the unit.
\<close>

definition blinkIno :: DocumentURI where
  "blinkIno = ''file:///sketch/Blink.ino''"

definition tab2Ino :: DocumentURI where
  "tab2Ino = ''file:///sketch/Tab2.ino''"

definition sketchCpp :: DocumentURI where
  "sketchCpp = ''file:///build/sketch/Blink.ino.cpp''"

definition libCpp :: DocumentURI where
  "libCpp = ''file:///other/lib.cpp''"

definition inoFileOfCppLine :: "int \<Rightarrow> string" where
  "inoFileOfCppLine l =
     (if l < 10 then ''/not-ino'' else if l < 40 then ''/sketch/Blink.ino'' else ''/sketch/Tab2.ino'')"

definition inoLineOfCppLine :: "int \<Rightarrow> int" where
  "inoLineOfCppLine l = (if l < 10 then 0 else if l < 40 then l - 10 else l - 40)"

definition inoRangeOfCppRange :: "Range \<Rightarrow> Range" where
  "inoRangeOfCppRange r =
     \<lparr>Start = (Start r)\<lparr>Line := inoLineOfCppLine (Line (Start r))\<rparr>,
      End = (End r)\<lparr>Line := inoLineOfCppLine (Line (End r))\<rparr>\<rparr>"

definition cppLineOfInoLine :: "DocumentURI \<Rightarrow> int \<Rightarrow> int \<times> bool" where
  "cppLineOfInoLine uri l =
     (if uri = ''file:///sketch/Blink.ino'' \<and> 0 \<le> l \<and> l < 30 then (l + 10, True)
      else if uri = ''file:///sketch/Tab2.ino'' \<and> 0 \<le> l then (l + 40, True)
      else (- 1, False))"

definition cppRangeOfInoRange :: "DocumentURI \<Rightarrow> Range \<Rightarrow> Range \<times> bool" where
  "cppRangeOfInoRange uri r =
     (\<lparr>Start = (Start r)\<lparr>Line := fst (cppLineOfInoLine uri (Line (Start r)))\<rparr>,
       End = (End r)\<lparr>Line := fst (cppLineOfInoLine uri (Line (End r)))\<rparr>\<rparr>,
      snd (cppLineOfInoLine uri (Line (Start r))) \<and> snd (cppLineOfInoLine uri (Line (End r))))"

definition blinkEnv :: "unit env" where
  "blinkEnv =
     \<lparr>Ext = (\<lambda>uri. if uri = ''file:///sketch/Blink.ino'' \<or> uri = ''file:///sketch/Tab2.ino''
                    then ''.ino''
                    else if uri = ''file:///not-ino'' then [] else ''.cpp''),
      Canonical = drop 7,
      Unbox = drop 7,
      NewDocumentURI = (\<lambda>p. ''file://'' @ p),
      EquivalentToBuildSketchCpp = (\<lambda>uri. uri = ''file:///build/sketch/Blink.ino.cpp''),
      buildSketchCppURI = ''file:///build/sketch/Blink.ino.cpp'',
      IsInsideSketchRoot = (\<lambda>uri. Inr False),
      SketchRootRelTo = (\<lambda>uri. Inl ''not in the sketch''),
      BuildSketchRootJoin = (\<lambda>rel. ''file:///build/sketch/'' @ rel),
      IsInsideBuildSketchRoot = (\<lambda>uri. Inr False),
      BuildSketchRootRelTo = (\<lambda>uri. Inl ''not in the build''),
      SketchRootJoin = (\<lambda>rel. ''file:///sketch/'' @ rel),
      NotInoFile = ''/not-ino'',
      NotInoURI = ''file:///not-ino'',
      IsPreprocessedCppLine = (\<lambda>m l. l < 10),
      CppToInoRange = (\<lambda>m r. (inoFileOfCppLine (Line (Start r)), inoRangeOfCppRange r)),
      CppToInoRangeOk =
        (\<lambda>m r. (inoFileOfCppLine (Line (Start r)), inoRangeOfCppRange r,
                 if inoFileOfCppLine (Line (Start r)) = inoFileOfCppLine (Line (End r)) then None
                 else Some (MapperError ''range spans two files''))),
      InoToCppLineOk = (\<lambda>m. cppLineOfInoLine),
      InoToCppLSPRangeOk = (\<lambda>m. cppRangeOfInoRange),
      EditCppText = (\<lambda>m uri change. (CppText_Text m @ ce_Text change, (), False)),
      Overlaps = (\<lambda>a b. Line (Start a) \<le> Line (End b) \<and> Line (Start b) \<le> Line (End a)),
      ApplyLSPTextDocumentContentChangeEvent =
        (\<lambda>doc changes version. doc\<lparr>td_Version := version\<rparr>)\<rparr>"

text \<open>Peers whose sends all succeed; clangd answers every request with \<open>null\<close>.\<close>

definition quietPeers :: peers where
  "quietPeers =
     \<lparr>ClangdNotify = (\<lambda>msg. None), ClangdRequest = (\<lambda>msg. Inr Nil), IdeNotify = (\<lambda>msg. None)\<rparr>"

text \<open>The handler after \<open>initializeWorkbench\<close>: nothing tracked, the unit at version 1.\<close>

definition freshHandler :: "unit InoHandler" where
  "freshHandler =
     \<lparr>docs = Map.empty, sketchTrackedFilesCount = 0, buildSketchSymbols = [],
      buildSketchSymbolsLoad = False, buildSketchSymbolsCheck = False, rebuildRequests = 0,
      sketchMapper = \<lparr>CppText_Text = ''void setup();'', CppText_Version = 1, lineTables = ()\<rparr>,
      inoDocsWithDiagnostics = []\<rparr>"

definition lineRange :: "int \<Rightarrow> Range" where
  "lineRange l = \<lparr>Start = \<lparr>Line = l, Character = 0\<rparr>, End = \<lparr>Line = l, Character = 4\<rparr>\<rparr>"

definition functionSymbol :: "string \<Rightarrow> int \<Rightarrow> DocumentSymbol" where
  "functionSymbol name l = DocumentSymbol name [] SKFunction False (lineRange l) (lineRange l) []"

text \<open>Both tabs open in the IDE.\<close>

definition blinkDoc :: TextDocumentItem where
  "blinkDoc = \<lparr>td_URI = ''file:///sketch/Blink.ino'', td_LanguageID = ''ino'', td_Version = 1,
                td_Text = ''void setup() {}''\<rparr>"

definition tab2Doc :: TextDocumentItem where
  "tab2Doc = \<lparr>td_URI = ''file:///sketch/Tab2.ino'', td_LanguageID = ''ino'', td_Version = 1,
               td_Text = ''void helper() {}''\<rparr>"

definition openedHandler :: "unit InoHandler" where
  "openedHandler =
     freshHandler\<lparr>docs := [''/sketch/Blink.ino'' \<mapsto> blinkDoc, ''/sketch/Tab2.ino'' \<mapsto> tab2Doc],
                  sketchTrackedFilesCount := 2\<rparr>"

text \<open>The same, after diagnostics were reported for \<open>Blink.ino\<close>.\<close>

definition staleHandler :: "unit InoHandler" where
  "staleHandler = openedHandler\<lparr>inoDocsWithDiagnostics := [''/sketch/Blink.ino'']\<rparr>"

definition errorAt :: "int \<Rightarrow> Diagnostic" where
  "errorAt l = \<lparr>dg_Range = lineRange l, Severity = 1, Code = ''undeclared_var_use'',
                dg_Message = ''use of undeclared identifier''\<rparr>"

definition edit :: "int \<Rightarrow> string \<Rightarrow> TextDocumentContentChangeEvent" where
  "edit l t = \<lparr>ce_Range = Some (lineRange l), ce_RangeLength = 4, ce_Text = t\<rparr>"

text \<open>The handler that has loaded the functions \<open>setup\<close> and \<open>blink\<close>.\<close>

definition symbolsHandler :: "unit InoHandler" where
  "symbolsHandler =
     openedHandler\<lparr>buildSketchSymbols := [functionSymbol ''setup'' 12, functionSymbol ''blink'' 20]\<rparr>"

text \<open>
  A clangd that answers a completion with two items, a hover with a text, and a symbol
  request with two functions and a variable, all in the coordinates of the synthetic unit.
\<close>

definition answeringPeers :: peers where
  "answeringPeers =
     \<lparr>ClangdNotify = (\<lambda>msg. None),
      ClangdRequest =
        (\<lambda>msg. case msg of
            CompletionReq p \<Rightarrow>
              Inr (CompletionResult
                    \<lparr>IsIncomplete = False,
                     Items =
                       [\<lparr>Label = ''digitalWrite'', InsertText = ''digitalWrite'',
                         ci_TextEdit = Some \<lparr>te_Range = lineRange 12, te_NewText = ''digitalWrite''\<rparr>\<rparr>,
                        \<lparr>Label = ''__builtin_abs'', InsertText = ''__builtin_abs'',
                         ci_TextEdit = None\<rparr>]\<rparr>)
          | HoverReq p \<Rightarrow>
              Inr (HoverResult
                    \<lparr>Contents = \<lparr>mc_Kind = ''plaintext'', Value = ''void loop()''\<rparr>,
                     hv_Range = Some (lineRange 12)\<rparr>)
          | DocumentSymbolReq uri \<Rightarrow>
              Inr (SymbolsResult
                    (DocumentSymbolArray
                      [functionSymbol ''setup'' 12, functionSymbol ''loop'' 20,
                       DocumentSymbol ''led'' [] 13 False (lineRange 11) (lineRange 11) []]))
          | _ \<Rightarrow> Inr Nil),
      IdeNotify = (\<lambda>msg. None)\<rparr>"

text \<open>
  A file system where the sketch has its own \<open>.clang-format\<close> and the user configured
  \<open>/home/formatter.conf\<close>; paths are strings and \<open>Join\<close> puts a slash between.
\<close>

definition sketchFiles :: files where
  "sketchFiles =
     \<lparr>Exist = (\<lambda>p. p = ''/sketch/.clang-format'' \<or> p = ''/home/formatter.conf''
                    \<or> p = ''/other/lib.cpp''),
      ReadFile = (\<lambda>p. if p = ''/sketch/.clang-format'' then Inr ''BasedOnStyle: Google''
                       else if p = ''/home/formatter.conf'' then Inr ''BasedOnStyle: Mozilla''
                       else Inl ''no such file''),
      WriteFile = (\<lambda>p content. None),
      IsNotDir = (\<lambda>p. p = ''/other/lib.cpp''),
      Parent = (\<lambda>p. if p = ''/other/lib.cpp'' then ''/other'' else p),
      Join = (\<lambda>p name. p @ ''/'' @ name),
      AsPath = drop 7\<rparr>"

text \<open>
  The same file system, where the \<open>.clang-format\<close> of the sketch exists and cannot be read.
\<close>

definition unreadableFiles :: files where
  "unreadableFiles =
     sketchFiles\<lparr>ReadFile :=
       (\<lambda>p. if p = ''/home/formatter.conf'' then Inr ''BasedOnStyle: Mozilla''
            else Inl ''permission denied'')\<rparr>"

definition sketchServer :: INOLanguageServer where
  "sketchServer = \<lparr>sketchRoot = ''/sketch'', FormatterConf = Some ''/home/formatter.conf''\<rparr>"

section \<open>What the translation of document symbols keeps\<close>

text \<open>
  A symbol of the synthetic unit is on a preprocessed line when its range starts on a
  line of the generated prototypes. It survives when it is not, when its range and its
  selection range lie in the same \<open>.ino\<close> file, and when that file is the requested one.
\<close>

definition onPreprocessedLine :: "'m env \<Rightarrow> 'm InoMapper \<Rightarrow> DocumentSymbol \<Rightarrow> bool" where
  "onPreprocessedLine e m s = IsPreprocessedCppLine e m (Line (Start (ds_Range s)))"

definition rangeFile :: "'m env \<Rightarrow> 'm InoMapper \<Rightarrow> DocumentSymbol \<Rightarrow> string" where
  "rangeFile e m s = fst (CppToInoRange e m (ds_Range s))"

definition selectionFile :: "'m env \<Rightarrow> 'm InoMapper \<Rightarrow> DocumentSymbol \<Rightarrow> string" where
  "selectionFile e m s = fst (CppToInoRange e m (SelectionRange s))"

definition survives :: "'m env \<Rightarrow> 'm InoMapper \<Rightarrow> DocumentURI \<Rightarrow> DocumentSymbol \<Rightarrow> bool" where
  "survives e m uri s =
     (\<not> onPreprocessedLine e m s \<and> rangeFile e m s = selectionFile e m s
      \<and> rangeFile e m s = Unbox e uri)"

text \<open>
  The translated symbol: its two ranges in \<open>.ino\<close> coordinates, its children translated
  by the same function.
\<close>

definition inoSymbol ::
    "'m env \<Rightarrow> 'm InoMapper \<Rightarrow> DocumentURI \<Rightarrow> DocumentSymbol \<Rightarrow> DocumentSymbol" where
  "inoSymbol e m uri s =
     DocumentSymbol (Name s) (Detail s) (Kind s) (Deprecated s)
       (snd (CppToInoRange e m (ds_Range s))) (snd (CppToInoRange e m (SelectionRange s)))
       (cpp2inoDocumentSymbols e m (Children s) uri)"

section \<open>Theorems\<close>

lemmas sketch_defs =
  blinkEnv_def blinkIno_def tab2Ino_def sketchCpp_def libCpp_def quietPeers_def
  freshHandler_def openedHandler_def blinkDoc_def tab2Doc_def lineRange_def
  inoFileOfCppLine_def inoLineOfCppLine_def inoRangeOfCppRange_def cppLineOfInoLine_def
  cppRangeOfInoRange_def

lemmas handler_defs =
  HandleMessageFromIDE_def didOpen_def didClose_def didChange_def sendToClangd_def returns_def
  ino2cppTextDocumentItem_def ino2cppTextDocumentIdentifier_def ino2cppDocumentURI_def
  ino2cppTextDocumentPositionParams_def transformClangdResult_def Notif_def Let_def
  ApplyTextChange_def scheduleRebuildEnvironment_def

lemmas diag_defs =
  cpp2inoDiagnostics_def cpp2inoDocumentURI_def inoDocumentURIFromInoPath_def FromClangd_def
  staleHandler_def errorAt_def undeclared_def

lemma functionSymbol_sel:
  "Kind (functionSymbol name l) = SKFunction" "Name (functionSymbol name l) = name"
  by (simp_all add: functionSymbol_def)

subsection \<open>Document symbols\<close>

lemma symbolsLoop_append:
  "symbolsLoop e m uri syms acc = acc @ map (inoSymbol e m uri) (filter (survives e m uri) syms)"
  by (induction syms arbitrary: acc)
     (simp_all add: survives_def onPreprocessedLine_def rangeFile_def selectionFile_def
        inoSymbol_def Let_def case_prod_beta)

text \<open>
  C4. For a request on a \<open>.ino\<close> document, the translation of a \<open>DocumentSymbol\<close> array
  keeps, in their order, the symbols that survive and drops the others: every symbol
  whose range starts on a preprocessed line is dropped, every symbol whose range and
  selection range map to different \<open>.ino\<close> files is dropped (and so is one of another
  \<open>.ino\<close> file than the requested one); each kept symbol has its ranges converted and its
  children translated by the same function, hence filtered in the same way.
\<close>

theorem documentSymbols_filtered:
  assumes "Ext e origURI = ''.ino''"
  shows "cpp2inoDocumentSymbols e m origSymbols origURI =
           map (inoSymbol e m origURI) (filter (survives e m origURI) origSymbols)
         \<and> (\<forall>s \<in> set origSymbols. onPreprocessedLine e m s \<longrightarrow> \<not> survives e m origURI s)
         \<and> (\<forall>s \<in> set origSymbols. rangeFile e m s \<noteq> selectionFile e m s
               \<longrightarrow> \<not> survives e m origURI s)
         \<and> (\<forall>s \<in> set (filter (survives e m origURI) origSymbols).
               Children (inoSymbol e m origURI s) =
                 map (inoSymbol e m origURI) (filter (survives e m origURI) (Children s)))"
proof -
  have eq: "cpp2inoDocumentSymbols e m syms origURI =
              map (inoSymbol e m origURI) (filter (survives e m origURI) syms)" for syms
    using assms by (cases syms) (simp_all add: symbolsLoop_append del: symbolsLoop.simps)
  have kids: "\<forall>s \<in> set (filter (survives e m origURI) origSymbols).
          Children (inoSymbol e m origURI s) =
            map (inoSymbol e m origURI) (filter (survives e m origURI) (Children s))"
    by (simp add: inoSymbol_def eq del: cpp2inoDocumentSymbols.simps)
  show ?thesis
    using eq [of origSymbols] kids by (simp add: survives_def del: cpp2inoDocumentSymbols.simps)
qed

theorem documentSymbols_filtered_witness:
  "Ext blinkEnv blinkIno = ''.ino''
   \<and> cpp2inoDocumentSymbols blinkEnv (sketchMapper freshHandler)
       [functionSymbol ''setup'' 3,
        DocumentSymbol ''loop'' [] SKFunction False (lineRange 12) (lineRange 12)
          [functionSymbol ''blink'' 5, functionSymbol ''inner'' 13],
        DocumentSymbol ''split'' [] SKFunction False (lineRange 39) (lineRange 41) [],
        functionSymbol ''helper'' 45]
       blinkIno =
       [DocumentSymbol ''loop'' [] SKFunction False (lineRange 2) (lineRange 2)
          [functionSymbol ''inner'' 3]]"
proof -
  have h: "Ext blinkEnv blinkIno = ''.ino''"
    by (simp add: blinkEnv_def blinkIno_def)
  show ?thesis
    using h documentSymbols_filtered [OF h, of "sketchMapper freshHandler"
        "[functionSymbol ''setup'' 3,
          DocumentSymbol ''loop'' [] SKFunction False (lineRange 12) (lineRange 12)
            [functionSymbol ''blink'' 5, functionSymbol ''inner'' 13],
          DocumentSymbol ''split'' [] SKFunction False (lineRange 39) (lineRange 41) [],
          functionSymbol ''helper'' 45]"]
    by (simp add: survives_def onPreprocessedLine_def rangeFile_def selectionFile_def
          inoSymbol_def blinkEnv_def blinkIno_def functionSymbol_def lineRange_def
          inoFileOfCppLine_def inoLineOfCppLine_def inoRangeOfCppRange_def)
qed


subsection \<open>Opening and closing documents\<close>

lemma ino2cpp_ino: "Ext e uri = ''.ino'' \<Longrightarrow> ino2cppDocumentURI e uri = Inr (buildSketchCppURI e)"
  by (simp add: ino2cppDocumentURI_def)

lemma sendToClangd_sent: "sentToClangd (sendToClangd e c h params inoURI cppURI) = [params]"
  by (simp add: sendToClangd_def Let_def split: prod.splits option.splits sum.splits)

lemma sendToClangd_count:
  "sketchTrackedFilesCount (handler (sendToClangd e c h params inoURI cppURI)) = sketchTrackedFilesCount h"
  by (simp add: sendToClangd_def Let_def split: prod.splits option.splits sum.splits)

lemma sendToClangd_docs:
  "docs (handler (sendToClangd e c h params inoURI cppURI)) = docs h"
  by (simp add: sendToClangd_def Let_def split: prod.splits option.splits sum.splits)

text \<open>
  C7. A \<open>didClose\<close> for a document that is not tracked leaves the tracked documents and the
  count of \<open>.ino\<close> files as they are and returns no error to the IDE when the send succeeds,
  but it is forwarded: clangd is sent the notification of the IDE, with the URI of the IDE.
  The branch of \<open>HandleMessageFromIDE\<close> for an error of \<open>handler.didClose\<close> is empty, where
  the branch of \<open>didOpen\<close> sets \<open>err\<close>.
\<close>

theorem didClose_untracked_forwarded:
  assumes "docs h (Canonical e uri) = None"
  shows "sentToClangd (HandleMessageFromIDE e c h (DidClose uri)) = [DidClose uri]
         \<and> docs (handler (HandleMessageFromIDE e c h (DidClose uri))) = docs h
         \<and> sketchTrackedFilesCount (handler (HandleMessageFromIDE e c h (DidClose uri)))
             = sketchTrackedFilesCount h
         \<and> (ClangdNotify c (DidClose uri) = None
              \<longrightarrow> returned (HandleMessageFromIDE e c h (DidClose uri)) = Inr Nil)"
  using assms
  by (simp add: HandleMessageFromIDE_def didClose_def sendToClangd_sent sendToClangd_count
        sendToClangd_docs)
     (simp add: sendToClangd_def Notif_def Let_def)

theorem didClose_untracked_forwarded_witness:
  "docs freshHandler (Canonical blinkEnv libCpp) = None
   \<and> sentToClangd (HandleMessageFromIDE blinkEnv quietPeers freshHandler (DidClose libCpp))
       = [DidClose libCpp]
   \<and> returned (HandleMessageFromIDE blinkEnv quietPeers freshHandler (DidClose libCpp)) = Inr Nil"
proof -
  have h: "docs freshHandler (Canonical blinkEnv libCpp) = None"
    by (simp add: freshHandler_def)
  show ?thesis
    using h didClose_untracked_forwarded [OF h, of quietPeers] by (simp add: quietPeers_def)
qed

text \<open>
  C1. What one \<open>didOpen\<close> or \<open>didClose\<close> of a \<open>.ino\<close> document forwards. A \<open>didOpen\<close>
  raises the count by one and forwards a \<open>didOpen\<close> of the synthetic unit exactly when the
  count was 0. A \<open>didClose\<close> of a tracked document lowers the count by one and forwards a
  \<open>didClose\<close> of the synthetic unit exactly when the count was 1. A \<open>didClose\<close> of a
  document that is not tracked leaves the count where it is and yet forwards the
  notification of the IDE to clangd.
\<close>

theorem ino_open_close_forwarding:
  assumes "Ext e uri = ''.ino''"
  shows "(td_URI item = uri \<longrightarrow>
            sketchTrackedFilesCount (handler (HandleMessageFromIDE e c h (DidOpen item)))
              = sketchTrackedFilesCount h + 1
            \<and> (sketchTrackedFilesCount h = 0 \<longrightarrow>
                 (\<exists>cppItem. sentToClangd (HandleMessageFromIDE e c h (DidOpen item)) = [DidOpen cppItem]
                    \<and> td_URI cppItem = buildSketchCppURI e))
            \<and> (sketchTrackedFilesCount h \<noteq> 0 \<longrightarrow>
                 sentToClangd (HandleMessageFromIDE e c h (DidOpen item)) = []))
         \<and> (docs h (Canonical e uri) \<noteq> None \<longrightarrow>
              sketchTrackedFilesCount (handler (HandleMessageFromIDE e c h (DidClose uri)))
                = sketchTrackedFilesCount h - 1
              \<and> (sketchTrackedFilesCount h = 1 \<longrightarrow>
                   sentToClangd (HandleMessageFromIDE e c h (DidClose uri))
                     = [DidClose (buildSketchCppURI e)])
              \<and> (sketchTrackedFilesCount h \<noteq> 1 \<longrightarrow>
                   sentToClangd (HandleMessageFromIDE e c h (DidClose uri)) = []))
         \<and> (docs h (Canonical e uri) = None \<longrightarrow>
              sketchTrackedFilesCount (handler (HandleMessageFromIDE e c h (DidClose uri)))
                = sketchTrackedFilesCount h
              \<and> sentToClangd (HandleMessageFromIDE e c h (DidClose uri)) = [DidClose uri])"
proof -
  have opens: "td_URI item = uri \<Longrightarrow>
            sketchTrackedFilesCount (handler (HandleMessageFromIDE e c h (DidOpen item)))
              = sketchTrackedFilesCount h + 1
            \<and> (sketchTrackedFilesCount h = 0 \<longrightarrow>
                 (\<exists>cppItem. sentToClangd (HandleMessageFromIDE e c h (DidOpen item)) = [DidOpen cppItem]
                    \<and> td_URI cppItem = buildSketchCppURI e))
            \<and> (sketchTrackedFilesCount h \<noteq> 0 \<longrightarrow>
                 sentToClangd (HandleMessageFromIDE e c h (DidOpen item)) = [])"
    using assms
    by (auto simp add: HandleMessageFromIDE_def didOpen_def Let_def ino2cppTextDocumentItem_def
        ino2cpp_ino returns_def sendToClangd_sent sendToClangd_count)
  have closes: "docs h (Canonical e uri) \<noteq> None \<Longrightarrow>
              sketchTrackedFilesCount (handler (HandleMessageFromIDE e c h (DidClose uri)))
                = sketchTrackedFilesCount h - 1
              \<and> (sketchTrackedFilesCount h = 1 \<longrightarrow>
                   sentToClangd (HandleMessageFromIDE e c h (DidClose uri))
                     = [DidClose (buildSketchCppURI e)])
              \<and> (sketchTrackedFilesCount h \<noteq> 1 \<longrightarrow>
                   sentToClangd (HandleMessageFromIDE e c h (DidClose uri)) = [])"
    using assms
    by (auto simp add: HandleMessageFromIDE_def didClose_def Let_def ino2cppTextDocumentIdentifier_def
        ino2cpp_ino returns_def sendToClangd_sent sendToClangd_count)
  have untracked: "docs h (Canonical e uri) = None \<Longrightarrow>
              sketchTrackedFilesCount (handler (HandleMessageFromIDE e c h (DidClose uri)))
                = sketchTrackedFilesCount h
              \<and> sentToClangd (HandleMessageFromIDE e c h (DidClose uri)) = [DidClose uri]"
    by (simp add: HandleMessageFromIDE_def didClose_def sendToClangd_sent sendToClangd_count)
  show ?thesis using opens closes untracked by blast
qed

theorem ino_open_close_forwarding_witness:
  "Ext blinkEnv tab2Ino = ''.ino''
   \<and> map sentToClangd
        (HandleMessagesFromIDE blinkEnv quietPeers freshHandler [DidOpen blinkDoc, DidClose tab2Ino])
       = [[DidOpen \<lparr>td_URI = sketchCpp, td_LanguageID = ''cpp'', td_Version = 1,
                    td_Text = ''void setup();''\<rparr>],
          [DidClose tab2Ino]]
   \<and> map (\<lambda>r. sketchTrackedFilesCount (handler r))
        (HandleMessagesFromIDE blinkEnv quietPeers freshHandler [DidOpen blinkDoc, DidClose tab2Ino])
       = [1, 1]"
proof -
  have h: "Ext blinkEnv tab2Ino = ''.ino''"
    by (simp add: blinkEnv_def tab2Ino_def)
  show ?thesis
    using h ino_open_close_forwarding [OF h, of blinkDoc quietPeers
        "handler (HandleMessageFromIDE blinkEnv quietPeers freshHandler (DidOpen blinkDoc))"]
    by (simp add: sketch_defs handler_defs)
qed

subsection \<open>Completion and hover\<close>

lemma completionItems_append:
  "completionItems e m False items acc
     = acc @ filter (\<lambda>item. take 1 (InsertText item) \<noteq> ''_'') items"
  by (induction items arbitrary: acc) (simp_all split: option.splits)

lemma completionItems_general:
  "completionItems e m b items acc
     = acc @ map (\<lambda>item. case ci_TextEdit item of
                     Some te \<Rightarrow> if b then item\<lparr>ci_TextEdit := Some (te\<lparr>te_Range := snd (CppToInoRange e m (te_Range te))\<rparr>)\<rparr> else item
                   | None \<Rightarrow> item)
             (filter (\<lambda>item. take 1 (InsertText item) \<noteq> ''_'') items)"
  by (induction items arbitrary: acc) (simp_all split: option.splits)

lemma transform_mapper:
  "sketchMapper h2 = sketchMapper h \<Longrightarrow>
     transformClangdResult e h2 inoURI cppURI result = transformClangdResult e h inoURI cppURI result"
  by (simp add: transformClangdResult_def Let_def
        split: Result.splits SymbolsReply.splits option.splits)

lemma sendToClangd_request:
  assumes "\<not> Notif params" "ClangdRequest c params = Inr result" "result \<noteq> Nil"
  shows "returned (sendToClangd e c h params inoURI cppURI)
               = transformClangdResult e h inoURI cppURI result"
  using assms by (auto simp add: sendToClangd_def Let_def intro!: transform_mapper)

text \<open>
  C6. The completion items returned for a request on a \<open>.ino\<close> document are the items of
  clangd whose insert text does not start with \<open>_\<close>, in their order. Their text edits are
  returned as clangd sent them, in the coordinates of the synthetic unit: the conversion
  is guarded by \<open>cppToIno\<close>, which asks whether the URI of the IDE is the synthetic unit,
  and a \<open>.ino\<close> document is not.
\<close>

theorem completion_ranges_kept:
  assumes "Ext e (tp_URI p) = ''.ino''"
    and "\<not> EquivalentToBuildSketchCpp e (tp_URI p)"
    and "ino2cppTextDocumentPositionParams e h p = Inr cppParams"
    and "ClangdRequest c (CompletionReq cppParams) = Inr (CompletionResult r)"
  shows "returned (HandleMessageFromIDE e c h (CompletionReq p))
           = Inr (CompletionResult
                   (r\<lparr>Items := filter (\<lambda>item. take 1 (InsertText item) \<noteq> ''_'') (Items r)\<rparr>))"
proof -
  have "returned (sendToClangd e c h (CompletionReq cppParams) (tp_URI p) NilURI)
      = transformClangdResult e h (tp_URI p) NilURI (CompletionResult r)"
    using assms(4) by (intro sendToClangd_request) (simp_all add: Notif_def)
  then show ?thesis
    using assms(2,3)
    by (simp add: HandleMessageFromIDE_def transformClangdResult_def completionItems_append)
qed

theorem completion_ranges_kept_witness:
  "Ext blinkEnv blinkIno = ''.ino''
   \<and> \<not> EquivalentToBuildSketchCpp blinkEnv blinkIno
   \<and> snd (CppToInoRange blinkEnv (sketchMapper openedHandler) (lineRange 12)) = lineRange 2
   \<and> returned (HandleMessageFromIDE blinkEnv answeringPeers openedHandler
        (CompletionReq \<lparr>tp_URI = blinkIno, tp_Position = \<lparr>Line = 2, Character = 3\<rparr>\<rparr>))
       = Inr (CompletionResult
               \<lparr>IsIncomplete = False,
                Items = [\<lparr>Label = ''digitalWrite'', InsertText = ''digitalWrite'',
                          ci_TextEdit = Some \<lparr>te_Range = lineRange 12,
                                               te_NewText = ''digitalWrite''\<rparr>\<rparr>]\<rparr>)"
proof -
  have h1: "Ext blinkEnv (tp_URI \<lparr>tp_URI = blinkIno, tp_Position = \<lparr>Line = 2, Character = 3\<rparr>\<rparr>) = ''.ino''"
    by (simp add: blinkEnv_def blinkIno_def)
  have h2: "\<not> EquivalentToBuildSketchCpp blinkEnv
              (tp_URI \<lparr>tp_URI = blinkIno, tp_Position = \<lparr>Line = 2, Character = 3\<rparr>\<rparr>)"
    by (simp add: blinkEnv_def blinkIno_def)
  have h3: "ino2cppTextDocumentPositionParams blinkEnv openedHandler
              \<lparr>tp_URI = blinkIno, tp_Position = \<lparr>Line = 2, Character = 3\<rparr>\<rparr>
            = Inr \<lparr>tp_URI = sketchCpp, tp_Position = \<lparr>Line = 12, Character = 3\<rparr>\<rparr>"
    by (simp add: sketch_defs handler_defs)
  have h4: "ClangdRequest answeringPeers
              (CompletionReq \<lparr>tp_URI = sketchCpp, tp_Position = \<lparr>Line = 12, Character = 3\<rparr>\<rparr>)
            = Inr (CompletionResult
                    \<lparr>IsIncomplete = False,
                     Items =
                       [\<lparr>Label = ''digitalWrite'', InsertText = ''digitalWrite'',
                         ci_TextEdit = Some \<lparr>te_Range = lineRange 12, te_NewText = ''digitalWrite''\<rparr>\<rparr>,
                        \<lparr>Label = ''__builtin_abs'', InsertText = ''__builtin_abs'',
                         ci_TextEdit = None\<rparr>]\<rparr>)"
    by (simp add: answeringPeers_def)
  have h5: "snd (CppToInoRange blinkEnv (sketchMapper openedHandler) (lineRange 12)) = lineRange 2"
    by (simp add: sketch_defs)
  show ?thesis
    using h1 h2 h5 completion_ranges_kept [OF h1 h2 h3 h4] by simp
qed

text \<open>
  C9. A hover whose contents are empty is answered with \<open>null\<close>. For a request on a
  \<open>.ino\<close> document a hover that is not empty is returned as clangd sent it, contents and
  range: the range stays in the coordinates of the synthetic unit, for the same guard
  \<open>cppToIno\<close>.
\<close>

theorem hover_range_kept:
  assumes "Ext e (tp_URI p) = ''.ino''"
    and "\<not> EquivalentToBuildSketchCpp e (tp_URI p)"
    and "ino2cppTextDocumentPositionParams e h p = Inr cppParams"
    and "ClangdRequest c (HoverReq cppParams) = Inr (HoverResult r)"
  shows "returned (HandleMessageFromIDE e c h (HoverReq p))
           = (if Value (Contents r) = [] then Inr Nil else Inr (HoverResult r))"
proof -
  have "returned (sendToClangd e c h (HoverReq cppParams) (tp_URI p) NilURI)
      = transformClangdResult e h (tp_URI p) NilURI (HoverResult r)"
    using assms(4) by (intro sendToClangd_request) (simp_all add: Notif_def)
  then show ?thesis
    using assms(2,3)
    by (simp add: HandleMessageFromIDE_def transformClangdResult_def)
qed

theorem hover_range_kept_witness:
  "Ext blinkEnv blinkIno = ''.ino''
   \<and> \<not> EquivalentToBuildSketchCpp blinkEnv blinkIno
   \<and> snd (CppToInoRange blinkEnv (sketchMapper openedHandler) (lineRange 12)) = lineRange 2
   \<and> returned (HandleMessageFromIDE blinkEnv answeringPeers openedHandler
        (HoverReq \<lparr>tp_URI = blinkIno, tp_Position = \<lparr>Line = 2, Character = 3\<rparr>\<rparr>))
       = Inr (HoverResult \<lparr>Contents = \<lparr>mc_Kind = ''plaintext'', Value = ''void loop()''\<rparr>,
                            hv_Range = Some (lineRange 12)\<rparr>)"
proof -
  have h1: "Ext blinkEnv (tp_URI \<lparr>tp_URI = blinkIno, tp_Position = \<lparr>Line = 2, Character = 3\<rparr>\<rparr>) = ''.ino''"
    by (simp add: blinkEnv_def blinkIno_def)
  have h2: "\<not> EquivalentToBuildSketchCpp blinkEnv
              (tp_URI \<lparr>tp_URI = blinkIno, tp_Position = \<lparr>Line = 2, Character = 3\<rparr>\<rparr>)"
    by (simp add: blinkEnv_def blinkIno_def)
  have h3: "ino2cppTextDocumentPositionParams blinkEnv openedHandler
              \<lparr>tp_URI = blinkIno, tp_Position = \<lparr>Line = 2, Character = 3\<rparr>\<rparr>
            = Inr \<lparr>tp_URI = sketchCpp, tp_Position = \<lparr>Line = 12, Character = 3\<rparr>\<rparr>"
    by (simp add: sketch_defs handler_defs)
  have h4: "ClangdRequest answeringPeers
              (HoverReq \<lparr>tp_URI = sketchCpp, tp_Position = \<lparr>Line = 12, Character = 3\<rparr>\<rparr>)
            = Inr (HoverResult \<lparr>Contents = \<lparr>mc_Kind = ''plaintext'', Value = ''void loop()''\<rparr>,
                                 hv_Range = Some (lineRange 12)\<rparr>)"
    by (simp add: answeringPeers_def)
  have h5: "snd (CppToInoRange blinkEnv (sketchMapper openedHandler) (lineRange 12)) = lineRange 2"
    by (simp add: sketch_defs)
  show ?thesis
    using h1 h2 h5 hover_range_kept [OF h1 h2 h3 h4] by simp
qed

subsection \<open>The check of the function symbols\<close>

lemma namesDiffer_iff:
  "namesDiffer old new i \<longleftrightarrow> (\<exists>j. i \<le> j \<and> j < length old \<and> Name (old ! j) \<noteq> Name (new ! j))"
proof (induction old new i rule: namesDiffer.induct)
  case (1 oldSymbols newSymbols i)
  show ?case
  proof (cases "i < length oldSymbols")
    case False
    then show ?thesis by (subst namesDiffer.simps) auto
  next
    case True
    show ?thesis
    proof (cases "Name (oldSymbols ! i) \<noteq> Name (newSymbols ! i)")
      case True
      with \<open>i < length oldSymbols\<close> show ?thesis by (subst namesDiffer.simps) auto
    next
      case False
      with True 1 have "namesDiffer oldSymbols newSymbols i \<longleftrightarrow>
          (\<exists>j. Suc i \<le> j \<and> j < length oldSymbols \<and> Name (oldSymbols ! j) \<noteq> Name (newSymbols ! j))"
        by (subst namesDiffer.simps) simp
      also have "\<dots> \<longleftrightarrow> (\<exists>j. i \<le> j \<and> j < length oldSymbols \<and> Name (oldSymbols ! j) \<noteq> Name (newSymbols ! j))"
        using False by (metis Suc_leD Suc_leI le_neq_implies_less)
      finally show ?thesis .
    qed
  qed
qed

lemma refresh_rebuildRequests:
  "refreshCppDocumentSymbols e c h = (h', r) \<Longrightarrow> rebuildRequests h' = rebuildRequests h"
  by (auto simp add: refreshCppDocumentSymbols_def Let_def split: sum.splits Result.splits)

lemma sendToClangd_check:
  assumes "buildSketchSymbolsCheck h"
    and "if Notif params then ClangdNotify c params = None
         else (\<exists>r. ClangdRequest c params = Inr r)"
  shows "CheckCppDocumentSymbols \<in> set (started (sendToClangd e c h params inoURI cppURI))
         \<and> \<not> buildSketchSymbolsCheck (handler (sendToClangd e c h params inoURI cppURI))"
  using assms by (auto simp add: sendToClangd_def Let_def split: if_splits)

text \<open>
  C5. When \<open>buildSketchSymbolsCheck\<close> is raised and a call of clangd succeeds,
  \<open>HandleMessageFromIDE\<close> starts \<open>checkCppDocumentSymbols\<close>. When its reload of the symbols
  succeeds, the check schedules a rebuild if and only if the list before the reload and
  the reloaded list differ in length or hold different names at some index; two lists
  with the same names index by index schedule none.
\<close>

theorem symbols_check_rebuild:
  assumes "refreshCppDocumentSymbols e c h = (h', None)"
  shows "(buildSketchSymbolsCheck g \<and> ClangdRequest c params = Inr res \<and> \<not> Notif params
            \<longrightarrow> CheckCppDocumentSymbols \<in> set (started (sendToClangd e c g params inoURI cppURI)))
         \<and> snd (checkCppDocumentSymbols e c h) = None
         \<and> buildSketchSymbols (fst (checkCppDocumentSymbols e c h)) = buildSketchSymbols h'
         \<and> (rebuildRequests (fst (checkCppDocumentSymbols e c h)) = Suc (rebuildRequests h)
              \<longleftrightarrow> length (buildSketchSymbols h) \<noteq> length (buildSketchSymbols h')
                  \<or> (\<exists>i < length (buildSketchSymbols h).
                        Name (buildSketchSymbols h ! i) \<noteq> Name (buildSketchSymbols h' ! i)))
         \<and> (map Name (buildSketchSymbols h) = map Name (buildSketchSymbols h')
              \<longrightarrow> rebuildRequests (fst (checkCppDocumentSymbols e c h)) = rebuildRequests h)"
proof -
  have rr: "rebuildRequests h' = rebuildRequests h"
    using assms by (rule refresh_rebuildRequests)
  have nd: "namesDiffer (buildSketchSymbols h) (buildSketchSymbols h') 0 \<longleftrightarrow>
      (\<exists>i < length (buildSketchSymbols h).
          Name (buildSketchSymbols h ! i) \<noteq> Name (buildSketchSymbols h' ! i))"
    by (simp add: namesDiffer_iff)
  have same: "map Name (buildSketchSymbols h) = map Name (buildSketchSymbols h') \<Longrightarrow>
      length (buildSketchSymbols h) = length (buildSketchSymbols h')
      \<and> \<not> (\<exists>i < length (buildSketchSymbols h).
          Name (buildSketchSymbols h ! i) \<noteq> Name (buildSketchSymbols h' ! i))"
    by (metis length_map nth_map)
  have trig: "buildSketchSymbolsCheck g \<and> ClangdRequest c params = Inr res \<and> \<not> Notif params
            \<longrightarrow> CheckCppDocumentSymbols \<in> set (started (sendToClangd e c g params inoURI cppURI))"
    using sendToClangd_check [of g params c e inoURI cppURI] by auto
  show ?thesis
    using assms rr nd same trig
    by (auto simp add: checkCppDocumentSymbols_def Let_def scheduleRebuildEnvironment_def
)
qed

lemma answeringPeers_symbols: "ClangdRequest answeringPeers (DocumentSymbolReq (buildSketchCppURI blinkEnv)) =
   Inr (SymbolsResult
                    (DocumentSymbolArray
                      [functionSymbol ''setup'' 12, functionSymbol ''loop'' 20,
                       DocumentSymbol ''led'' [] 13 False (lineRange 11) (lineRange 11) []]))"
  by (simp add: answeringPeers_def)

lemma transform_symbols: "transformClangdResult blinkEnv symbolsHandler (buildSketchCppURI blinkEnv) NilURI (SymbolsResult
                    (DocumentSymbolArray
                      [functionSymbol ''setup'' 12, functionSymbol ''loop'' 20,
                       DocumentSymbol ''led'' [] 13 False (lineRange 11) (lineRange 11) []]))
   = Inr (DocumentSymbols [functionSymbol ''setup'' 12, functionSymbol ''loop'' 20,
                       DocumentSymbol ''led'' [] 13 False (lineRange 11) (lineRange 11) []])"
  by (simp add: transformClangdResult_def blinkEnv_def)

theorem symbols_check_rebuild_witness:
  "refreshCppDocumentSymbols blinkEnv answeringPeers symbolsHandler
     = (symbolsHandler\<lparr>buildSketchSymbols :=
          [functionSymbol ''setup'' 12, functionSymbol ''loop'' 20]\<rparr>, None)
   \<and> CheckCppDocumentSymbols
       \<in> set (started (sendToClangd blinkEnv answeringPeers
                  (symbolsHandler\<lparr>buildSketchSymbolsCheck := True\<rparr>)
                  (DocumentSymbolReq sketchCpp) blinkIno NilURI))
   \<and> rebuildRequests symbolsHandler = 0
   \<and> rebuildRequests (fst (checkCppDocumentSymbols blinkEnv answeringPeers symbolsHandler)) = 1"
proof -
  have r: "refreshCppDocumentSymbols blinkEnv answeringPeers symbolsHandler
     = (symbolsHandler\<lparr>buildSketchSymbols :=
          [functionSymbol ''setup'' 12, functionSymbol ''loop'' 20]\<rparr>, None)"
    by (simp add: refreshCppDocumentSymbols_def answeringPeers_symbols transform_symbols Let_def
          functionSymbol_sel SKFunction_def)
  have z: "rebuildRequests symbolsHandler = 0"
    by (simp add: symbolsHandler_def openedHandler_def freshHandler_def)
  have d: "Name (buildSketchSymbols symbolsHandler ! 1) \<noteq>
           Name ([functionSymbol ''setup'' 12, functionSymbol ''loop'' 20] ! 1)"
    by (simp add: symbolsHandler_def functionSymbol_sel)
  have l: "(1::nat) < length (buildSketchSymbols symbolsHandler)"
    by (simp add: symbolsHandler_def)
  have call: "buildSketchSymbolsCheck (symbolsHandler\<lparr>buildSketchSymbolsCheck := True\<rparr>)
      \<and> ClangdRequest answeringPeers (DocumentSymbolReq sketchCpp)
          = Inr (SymbolsResult
                  (DocumentSymbolArray
                    [functionSymbol ''setup'' 12, functionSymbol ''loop'' 20,
                     DocumentSymbol ''led'' [] 13 False (lineRange 11) (lineRange 11) []]))
      \<and> \<not> Notif (DocumentSymbolReq sketchCpp)"
    by (simp add: answeringPeers_def Notif_def)
  note all = symbols_check_rebuild [OF r, where g = "symbolsHandler\<lparr>buildSketchSymbolsCheck := True\<rparr>"
      and params = "DocumentSymbolReq sketchCpp" and inoURI = blinkIno and cppURI = NilURI
      and res = "SymbolsResult
                  (DocumentSymbolArray
                    [functionSymbol ''setup'' 12, functionSymbol ''loop'' 20,
                     DocumentSymbol ''led'' [] 13 False (lineRange 11) (lineRange 11) []])"]
  have started: "CheckCppDocumentSymbols
       \<in> set (started (sendToClangd blinkEnv answeringPeers
                  (symbolsHandler\<lparr>buildSketchSymbolsCheck := True\<rparr>)
                  (DocumentSymbolReq sketchCpp) blinkIno NilURI))"
    using all [THEN conjunct1] call by blast
  note iff = all [THEN conjunct2, THEN conjunct2, THEN conjunct2, THEN conjunct1]
  have ex: "\<exists>i < length (buildSketchSymbols symbolsHandler).
      Name (buildSketchSymbols symbolsHandler ! i)
        \<noteq> Name (buildSketchSymbols (symbolsHandler\<lparr>buildSketchSymbols :=
              [functionSymbol ''setup'' 12, functionSymbol ''loop'' 20]\<rparr>) ! i)"
    using d l by (intro exI [of _ 1]) simp
  have "rebuildRequests (fst (checkCppDocumentSymbols blinkEnv answeringPeers symbolsHandler))
          = Suc (rebuildRequests symbolsHandler)"
    using iff ex by blast
  then show ?thesis using r z started by simp
qed

subsection \<open>The formatter configuration\<close>

text \<open>
  C8, as amended. \<open>createClangdFormatterConfig\<close> writes one file, \<open>.clang-format\<close> beside
  the target, and the returned cleanup removes that very file. The content is that of the
  \<open>.clang-format\<close> of the sketch root when that file exists and is read; when it does not
  exist, that of the configured file when that exists and is read; and the baked-in
  default otherwise, which is when neither exists and also when the file chosen exists
  and cannot be read.
\<close>

theorem formatter_config_choice:
  "\<exists>targetFile config.
      performed (createClangdFormatterConfig fs ls cppuri) = [WriteFileOp targetFile config]
    \<and> cleanup (createClangdFormatterConfig fs ls cppuri) = [RemoveOp targetFile]
    \<and> writeError (createClangdFormatterConfig fs ls cppuri) = WriteFile fs targetFile config
    \<and> targetFile = Join fs (if IsNotDir fs (AsPath fs cppuri) then Parent fs (AsPath fs cppuri)
                              else AsPath fs cppuri) ''.clang-format''
    \<and> (Exist fs (Join fs (sketchRoot ls) ''.clang-format'') \<longrightarrow>
         (\<forall>content. ReadFile fs (Join fs (sketchRoot ls) ''.clang-format'') = Inr content
            \<longrightarrow> config = content)
         \<and> (\<forall>failure. ReadFile fs (Join fs (sketchRoot ls) ''.clang-format'') = Inl failure
            \<longrightarrow> config = defaultConfig))
    \<and> (\<not> Exist fs (Join fs (sketchRoot ls) ''.clang-format'') \<longrightarrow>
         (\<forall>conf. FormatterConf ls = Some conf \<and> Exist fs conf \<longrightarrow>
            (\<forall>content. ReadFile fs conf = Inr content \<longrightarrow> config = content)
            \<and> (\<forall>failure. ReadFile fs conf = Inl failure \<longrightarrow> config = defaultConfig))
       \<and> ((FormatterConf ls = None \<or> (\<exists>conf. FormatterConf ls = Some conf \<and> \<not> Exist fs conf))
            \<longrightarrow> config = defaultConfig))"
  by (auto simp add: createClangdFormatterConfig_def Let_def tryConf_def
        split: option.splits sum.splits)

theorem formatter_config_choice_witness:
  "performed (createClangdFormatterConfig sketchFiles sketchServer libCpp)
     = [WriteFileOp ''/other/.clang-format'' ''BasedOnStyle: Google'']
   \<and> cleanup (createClangdFormatterConfig sketchFiles sketchServer libCpp)
     = [RemoveOp ''/other/.clang-format'']"
  using formatter_config_choice [of sketchFiles sketchServer libCpp]
  by (simp add: sketchFiles_def sketchServer_def libCpp_def)

lemma defaultConfig_first: "hd defaultConfig = CHR ''#''"
  by (simp add: defaultConfig_def defaultConfigLines_def)

text \<open>
  The \<open>.clang-format\<close> of the sketch exists and cannot be read, the configured file can:
  the default is written, and no error is returned.
\<close>

theorem formatter_unreadable_sketch_config:
  "Exist unreadableFiles (Join unreadableFiles (sketchRoot sketchServer) ''.clang-format'')
   \<and> ReadFile unreadableFiles (Join unreadableFiles (sketchRoot sketchServer) ''.clang-format'')
       = Inl ''permission denied''
   \<and> FormatterConf sketchServer = Some ''/home/formatter.conf''
   \<and> ReadFile unreadableFiles ''/home/formatter.conf'' = Inr ''BasedOnStyle: Mozilla''
   \<and> performed (createClangdFormatterConfig unreadableFiles sketchServer libCpp)
       = [WriteFileOp ''/other/.clang-format'' defaultConfig]
   \<and> writeError (createClangdFormatterConfig unreadableFiles sketchServer libCpp) = None
   \<and> defaultConfig \<noteq> ''BasedOnStyle: Mozilla''"
proof -
  have d: "defaultConfig \<noteq> ''BasedOnStyle: Mozilla''"
  proof
    assume a: "defaultConfig = ''BasedOnStyle: Mozilla''"
    have "hd defaultConfig = CHR ''B''" by (simp add: a)
    with defaultConfig_first show False by simp
  qed
  show ?thesis
    using d
    by (simp add: createClangdFormatterConfig_def tryConf_def Let_def unreadableFiles_def
          sketchFiles_def sketchServer_def libCpp_def)
qed

subsection \<open>The version of the synthetic unit\<close>

lemma scheduleRebuild_mapper [simp]:
  "sketchMapper (scheduleRebuildEnvironment h) = sketchMapper h"
  by (simp add: scheduleRebuildEnvironment_def)

lemma ApplyTextChange_version:
  "CppText_Version (fst (ApplyTextChange e m uri change)) = CppText_Version m + 1"
  by (simp add: ApplyTextChange_def split: prod.splits)

lemma cppChangesLoop_ok:
  "cppChangesLoop e uri changes h acc = (h', Inr cpp) \<Longrightarrow>
     cppVersion h' = cppVersion h + int (length changes)
     \<and> map ce_Text cpp = map ce_Text acc @ map ce_Text changes"
proof (induction changes arbitrary: h acc)
  case Nil
  then show ?case by simp
next
  case (Cons change rest)
  from Cons.prems obtain inoRange where r: "ce_Range change = Some inoRange"
    by (cases "ce_Range change") simp_all
  obtain cppRange ok where c: "InoToCppLSPRangeOk e (sketchMapper h) uri inoRange = (cppRange, ok)"
    by (cases "InoToCppLSPRangeOk e (sketchMapper h) uri inoRange")
  from Cons.prems r c have ok: ok by (cases ok) simp_all
  obtain m' d where a: "ApplyTextChange e (sketchMapper h) uri change = (m', d)"
    by (cases "ApplyTextChange e (sketchMapper h) uri change")
  define h2 where "h2 = (if list_ex (\<lambda>sym. Overlaps e (ds_Range sym) cppRange) (buildSketchSymbols h) \<or> d
        then scheduleRebuildEnvironment (h\<lparr>sketchMapper := m'\<rparr>) else h\<lparr>sketchMapper := m'\<rparr>)"
  have step: "cppChangesLoop e uri rest h2
      (acc @ [\<lparr>ce_Range = Some cppRange, ce_RangeLength = ce_RangeLength change,
                ce_Text = ce_Text change\<rparr>]) = (h', Inr cpp)"
    using Cons.prems r c ok a by (simp add: h2_def Let_def)
  have v: "cppVersion h2 = cppVersion h + 1"
    using ApplyTextChange_version [of e "sketchMapper h" uri change] a
    by (simp add: h2_def cppVersion_def)
  from Cons.IH [OF step] v show ?case by simp
qed

lemma didChange_step:
  assumes "inoChange e req"
    and "sentToClangd (HandleMessageFromIDE e c h req) \<noteq> []"
  shows "cppVersion (handler (HandleMessageFromIDE e c h req))
           = cppVersion h + int (length (contentChanges req))
         \<and> \<not> exited (HandleMessageFromIDE e c h req)
         \<and> (\<exists>cpp. sentToClangd (HandleMessageFromIDE e c h req)
                     = [DidChange (buildSketchCppURI e)
                          (cppVersion (handler (HandleMessageFromIDE e c h req))) cpp]
                \<and> map ce_Text cpp = map ce_Text (contentChanges req))"
proof -
  from assms(1) obtain uri version changes where req: "req = DidChange uri version changes"
    and ino: "Ext e uri = ''.ino''"
    by (cases req) (simp_all add: inoChange_def)
  from assms(2) req obtain doc where doc: "docs h (Canonical e uri) = Some doc"
    by (cases "docs h (Canonical e uri)")
       (simp_all add: HandleMessageFromIDE_def didChange_def returns_def)
  define h1 where "h1 = h\<lparr>docs := (docs h)(Canonical e uri \<mapsto>
      ApplyLSPTextDocumentContentChangeEvent e doc changes version)\<rparr>"
  obtain h2 res where loop: "cppChangesLoop e uri changes h1 [] = (h2, res)"
    by (cases "cppChangesLoop e uri changes h1 []")
  from assms(2) req doc ino loop obtain cpp where res: "res = Inr cpp"
    by (cases res)
       (simp_all add: HandleMessageFromIDE_def didChange_def returns_def Let_def h1_def)
  have "cppVersion h2 = cppVersion h1 + int (length changes)
     \<and> map ce_Text cpp = map ce_Text [] @ map ce_Text changes"
    using loop res cppChangesLoop_ok [of e uri changes h1 "[]" h2 cpp] by simp
  moreover have "cppVersion h1 = cppVersion h"
    by (simp add: h1_def cppVersion_def)
  moreover have "HandleMessageFromIDE e c h req =
      \<lparr>handler = h2, sentToClangd = [DidChange (buildSketchCppURI e) (cppVersion h2) cpp],
       started = [], exited = False,
       returned = (case ClangdNotify c (DidChange (buildSketchCppURI e) (cppVersion h2) cpp) of
                     None \<Rightarrow> Inr Nil | Some s \<Rightarrow> Inl (ConnError s))\<rparr>"
    using req doc ino loop res
    by (simp add: HandleMessageFromIDE_def didChange_def Let_def h1_def cppVersion_def)
  ultimately show ?thesis
    by (simp add: req contentChanges_def)
qed


lemma finalHandler_Cons:
  "finalHandler h (r # rs) = finalHandler (handler r) rs"
  by (simp add: finalHandler_def)

lemma sum_list_ones:
  "\<forall>x \<in> set xs. f x = (1::nat) \<Longrightarrow> sum_list (map f xs) = length xs"
  by (induction xs) simp_all

text \<open>
  A run of \<open>didChange\<close> notifications on \<open>.ino\<close> documents, each of them forwarded: the
  version of the synthetic unit ends at the initial one plus the number of all content
  changes, which is the initial one plus the number of notifications only when each
  carries one change.
\<close>

lemma didChange_run_versions:
  assumes "\<forall>req \<in> set reqs. inoChange e req"
    and "\<forall>r \<in> set (HandleMessagesFromIDE e c h reqs). sentToClangd r \<noteq> []"
  shows "length (HandleMessagesFromIDE e c h reqs) = length reqs
         \<and> cppVersion (finalHandler h (HandleMessagesFromIDE e c h reqs))
             = cppVersion h + int (sum_list (map (\<lambda>req. length (contentChanges req)) reqs))
         \<and> (\<forall>i < length reqs. \<exists>cpp.
               sentToClangd (HandleMessagesFromIDE e c h reqs ! i)
                 = [DidChange (buildSketchCppURI e)
                      (cppVersion (handler (HandleMessagesFromIDE e c h reqs ! i))) cpp]
               \<and> map ce_Text cpp = map ce_Text (contentChanges (reqs ! i)))
         \<and> ((\<forall>req \<in> set reqs. length (contentChanges req) = 1)
               \<longrightarrow> cppVersion (finalHandler h (HandleMessagesFromIDE e c h reqs))
                     = cppVersion h + int (length reqs))"
  using assms
proof (induction reqs arbitrary: h)
  case Nil
  then show ?case by (simp add: finalHandler_def)
next
  case (Cons req reqs)
  define r where "r = HandleMessageFromIDE e c h req"
  have ino: "inoChange e req" using Cons.prems(1) by simp
  have sent: "sentToClangd r \<noteq> []"
    using Cons.prems(2) by (simp add: r_def Let_def split: if_splits)
  have step: "cppVersion (handler r) = cppVersion h + int (length (contentChanges req))
         \<and> \<not> exited r
         \<and> (\<exists>cpp. sentToClangd r = [DidChange (buildSketchCppURI e) (cppVersion (handler r)) cpp]
                \<and> map ce_Text cpp = map ce_Text (contentChanges req))"
    using didChange_step [OF ino, of c h] sent unfolding r_def by blast
  then obtain cpp0 where v: "cppVersion (handler r) = cppVersion h + int (length (contentChanges req))"
    and ne: "\<not> exited r"
    and s0: "sentToClangd r = [DidChange (buildSketchCppURI e) (cppVersion (handler r)) cpp0]"
    and t0: "map ce_Text cpp0 = map ce_Text (contentChanges req)"
    by blast
  have unfold: "HandleMessagesFromIDE e c h (req # reqs)
      = r # HandleMessagesFromIDE e c (handler r) reqs"
    using ne by (simp add: r_def Let_def)
  have rest1: "\<forall>req \<in> set reqs. inoChange e req" using Cons.prems(1) by simp
  have rest2: "\<forall>r' \<in> set (HandleMessagesFromIDE e c (handler r) reqs). sentToClangd r' \<noteq> []"
    using Cons.prems(2) unfolding unfold by simp
  note IH = Cons.IH [OF rest1 rest2]
  have len: "length (HandleMessagesFromIDE e c h (req # reqs)) = length (req # reqs)"
    unfolding unfold using IH by simp
  have total: "cppVersion (finalHandler h (HandleMessagesFromIDE e c h (req # reqs)))
      = cppVersion h + int (sum_list (map (\<lambda>req. length (contentChanges req)) (req # reqs)))"
    unfolding unfold finalHandler_Cons using IH v by simp
  have each: "\<forall>i < length (req # reqs). \<exists>cpp.
        sentToClangd (HandleMessagesFromIDE e c h (req # reqs) ! i)
          = [DidChange (buildSketchCppURI e)
               (cppVersion (handler (HandleMessagesFromIDE e c h (req # reqs) ! i))) cpp]
        \<and> map ce_Text cpp = map ce_Text (contentChanges ((req # reqs) ! i))"
    unfolding unfold
  proof (intro allI impI)
    fix i assume i: "i < length (req # reqs)"
    show "\<exists>cpp. sentToClangd ((r # HandleMessagesFromIDE e c (handler r) reqs) ! i)
          = [DidChange (buildSketchCppURI e)
               (cppVersion (handler ((r # HandleMessagesFromIDE e c (handler r) reqs) ! i))) cpp]
        \<and> map ce_Text cpp = map ce_Text (contentChanges ((req # reqs) ! i))"
    proof (cases i)
      case 0
      show ?thesis unfolding 0 nth_Cons_0 using s0 t0 by blast
    next
      case (Suc j)
      then have "j < length reqs" using i by simp
      then show ?thesis unfolding Suc nth_Cons_Suc using IH by blast
    qed
  qed
  have ones: "(\<forall>req' \<in> set (req # reqs). length (contentChanges req') = 1)
      \<longrightarrow> cppVersion (finalHandler h (HandleMessagesFromIDE e c h (req # reqs)))
            = cppVersion h + int (length (req # reqs))"
    using total sum_list_ones [of "req # reqs" "\<lambda>req. length (contentChanges req)"]
    by (simp del: HandleMessagesFromIDE.simps)
  from len total each ones show ?case by blast
qed

lemma cppChangesLoop_translated:
  "changesConvert e uri changes (sketchMapper h) \<Longrightarrow>
     \<exists>h'. cppChangesLoop e uri changes h acc
             = (h', Inr (acc @ translatedChanges e uri changes (sketchMapper h)))
         \<and> cppVersion h' = cppVersion h + int (length changes)"
proof (induction changes arbitrary: h acc)
  case Nil
  then show ?case by simp
next
  case (Cons change rest)
  from Cons.prems obtain inoRange where r: "ce_Range change = Some inoRange"
    by (cases "ce_Range change") simp_all
  obtain cppRange ok where c: "InoToCppLSPRangeOk e (sketchMapper h) uri inoRange = (cppRange, ok)"
    by (cases "InoToCppLSPRangeOk e (sketchMapper h) uri inoRange")
  from Cons.prems r c have ok: ok by simp
  obtain m' d where a: "ApplyTextChange e (sketchMapper h) uri change = (m', d)"
    by (cases "ApplyTextChange e (sketchMapper h) uri change")
  define h2 where "h2 = (if list_ex (\<lambda>sym. Overlaps e (ds_Range sym) cppRange) (buildSketchSymbols h) \<or> d
        then scheduleRebuildEnvironment (h\<lparr>sketchMapper := m'\<rparr>) else h\<lparr>sketchMapper := m'\<rparr>)"
  define cppChange where "cppChange = \<lparr>ce_Range = Some cppRange,
      ce_RangeLength = ce_RangeLength change, ce_Text = ce_Text change\<rparr>"
  have step: "cppChangesLoop e uri (change # rest) h acc
      = cppChangesLoop e uri rest h2 (acc @ [cppChange])"
    using r c ok a by (simp add: h2_def cppChange_def Let_def)
  have m2: "sketchMapper h2 = m'" by (simp add: h2_def)
  have v: "cppVersion h2 = cppVersion h + 1"
    using ApplyTextChange_version [of e "sketchMapper h" uri change] a
    by (simp add: h2_def cppVersion_def)
  have conv: "changesConvert e uri rest (sketchMapper h2)"
    using Cons.prems r a m2 by simp
  have tr: "translatedChanges e uri (change # rest) (sketchMapper h)
      = cppChange # translatedChanges e uri rest (sketchMapper h2)"
    using r c a m2 by (simp add: cppChange_def)
  from Cons.IH [OF conv, of "acc @ [cppChange]"] obtain h' where
    "cppChangesLoop e uri rest h2 (acc @ [cppChange])
       = (h', Inr ((acc @ [cppChange]) @ translatedChanges e uri rest (sketchMapper h2)))"
    "cppVersion h' = cppVersion h2 + int (length rest)"
    by blast
  then have "cppChangesLoop e uri (change # rest) h acc
             = (h', Inr (acc @ translatedChanges e uri (change # rest) (sketchMapper h)))
         \<and> cppVersion h' = cppVersion h + int (length (change # rest))"
    using step tr v by simp
  then show ?case by blast
qed

text \<open>
  C2. A \<open>didChange\<close> on a tracked \<open>.ino\<close> document whose content changes convert is
  forwarded as one \<open>didChange\<close> of the synthetic unit that carries all the translated
  changes, in order, at the version reached after the last of them. That version is the
  version before plus the number of content changes: \<open>didChange\<close> applies the changes to
  the mapper one by one and each application bumps the version. So a notification with
  two changes raises the version by 2 and one without changes leaves it, where the
  comment in \<open>didChange\<close> has the version of the unit incremented for each increment of the
  \<open>.ino\<close> file.
\<close>

theorem didChange_version_per_change:
  assumes "Ext e uri = ''.ino''"
    and "docs h (Canonical e uri) = Some doc"
    and "changesConvert e uri changes (sketchMapper h)"
  shows "sentToClangd (HandleMessageFromIDE e c h (DidChange uri version changes))
           = [DidChange (buildSketchCppURI e) (cppVersion h + int (length changes))
                (translatedChanges e uri changes (sketchMapper h))]
         \<and> cppVersion (handler (HandleMessageFromIDE e c h (DidChange uri version changes)))
             = cppVersion h + int (length changes)"
proof -
  define h1 where "h1 = h\<lparr>docs := (docs h)(Canonical e uri \<mapsto>
      ApplyLSPTextDocumentContentChangeEvent e doc changes version)\<rparr>"
  have m1: "sketchMapper h1 = sketchMapper h" and v1: "cppVersion h1 = cppVersion h"
    by (simp_all add: h1_def cppVersion_def)
  from cppChangesLoop_translated [of e uri changes h1 "[]"] assms(3) m1 v1
  obtain h2 where loop: "cppChangesLoop e uri changes h1 []
        = (h2, Inr (translatedChanges e uri changes (sketchMapper h)))"
    and v2: "cppVersion h2 = cppVersion h + int (length changes)"
    by auto
  have "didChange e h uri version changes
      = (h2, Inr (Some (DidChange (buildSketchCppURI e) (cppVersion h2)
                          (translatedChanges e uri changes (sketchMapper h)))))"
    using assms(1,2) loop by (simp add: didChange_def Let_def h1_def cppVersion_def)
  then show ?thesis
    using v2 by (simp add: HandleMessageFromIDE_def)
qed

theorem didChange_version_per_change_witness:
  "Ext blinkEnv blinkIno = ''.ino''
   \<and> docs openedHandler (Canonical blinkEnv blinkIno) = Some blinkDoc
   \<and> changesConvert blinkEnv blinkIno [edit 3 ''int a;'', edit 4 ''int b;'']
       (sketchMapper openedHandler)
   \<and> cppVersion openedHandler = 1
   \<and> sentToClangd (HandleMessageFromIDE blinkEnv quietPeers openedHandler
        (DidChange blinkIno 2 [edit 3 ''int a;'', edit 4 ''int b;'']))
       = [DidChange sketchCpp 3 [edit 13 ''int a;'', edit 14 ''int b;'']]
   \<and> cppVersion (handler (HandleMessageFromIDE blinkEnv quietPeers openedHandler
        (DidChange blinkIno 2 [edit 3 ''int a;'', edit 4 ''int b;'']))) = 3"
proof -
  have h1: "Ext blinkEnv blinkIno = ''.ino''"
    by (simp add: blinkEnv_def blinkIno_def)
  have h2: "docs openedHandler (Canonical blinkEnv blinkIno) = Some blinkDoc"
    by (simp add: openedHandler_def blinkEnv_def blinkIno_def)
  have h3: "changesConvert blinkEnv blinkIno [edit 3 ''int a;'', edit 4 ''int b;'']
       (sketchMapper openedHandler)"
    by (simp add: edit_def lineRange_def blinkEnv_def blinkIno_def cppRangeOfInoRange_def
          cppLineOfInoLine_def)
  have v: "cppVersion openedHandler = 1"
    by (simp add: cppVersion_def openedHandler_def freshHandler_def)
  have t: "translatedChanges blinkEnv blinkIno [edit 3 ''int a;'', edit 4 ''int b;'']
       (sketchMapper openedHandler) = [edit 13 ''int a;'', edit 14 ''int b;'']"
    by (simp add: edit_def lineRange_def blinkEnv_def blinkIno_def cppRangeOfInoRange_def
          cppLineOfInoLine_def)
  have b: "buildSketchCppURI blinkEnv = sketchCpp"
    by (simp add: blinkEnv_def sketchCpp_def)
  note sent = didChange_version_per_change [OF h1 h2 h3, of quietPeers 2, unfolded t b]
  show ?thesis
    using h1 h2 h3 v sent
    by (simp del: changesConvert.simps translatedChanges.simps)
qed

subsection \<open>The fan-out of diagnostics\<close>

lemma publishLoop_ok:
  assumes "\<forall>m. IdeNotify c m = None"
  shows "\<exists>s'. publishLoop e c bs s = (s', None)
           \<and> sentToIDE s' = sentToIDE s @ published e bs
           \<and> set (fo_inoDocsWithDiagnostics s')
               = set (fo_inoDocsWithDiagnostics s) \<union> set (inoPaths e bs)
           \<and> (cleanUpInoDiagnostics s' \<longleftrightarrow> cleanUpInoDiagnostics s
                 \<or> list_ex (\<lambda>b. pd_URI b = NotInoURI e \<or> Ext e (pd_URI b) = ''.ino'') bs)
           \<and> inoDocsWithDiagnostics (fo_handler s') = inoDocsWithDiagnostics (fo_handler s)"
proof (induction bs arbitrary: s)
  case Nil
  show ?case by (simp add: published_def inoPaths_def)
next
  case (Cons b bs)
  show ?case
  proof (cases "pd_URI b = NotInoURI e")
    case True
    from Cons.IH [of "s\<lparr>cleanUpInoDiagnostics := True\<rparr>"] True show ?thesis
      by (auto simp add: published_def inoPaths_def)
  next
    case False
    define s1 where "s1 = (if Ext e (pd_URI b) = ''.ino''
                then s\<lparr>fo_inoDocsWithDiagnostics :=
                          List.insert (Canonical e (pd_URI b)) (fo_inoDocsWithDiagnostics s),
                        cleanUpInoDiagnostics := True,
                        fo_handler :=
                          (if list_ex undeclared (Diagnostics b)
                           then (fo_handler s)\<lparr>buildSketchSymbolsCheck := True\<rparr>
                           else fo_handler s)\<rparr>
                else s)"
    have step: "publishLoop e c (b # bs) s = publishLoop e c bs (s1\<lparr>sentToIDE := sentToIDE s1 @ [b]\<rparr>)"
      using False assms by (simp add: s1_def Let_def)
    have s1_sent: "sentToIDE s1 = sentToIDE s" by (simp add: s1_def)
    have s1_set: "set (fo_inoDocsWithDiagnostics s1) = set (fo_inoDocsWithDiagnostics s)
        \<union> (if Ext e (pd_URI b) = ''.ino'' then {Canonical e (pd_URI b)} else {})"
      by (auto simp add: s1_def)
    have s1_clean: "cleanUpInoDiagnostics s1 \<longleftrightarrow> cleanUpInoDiagnostics s \<or> Ext e (pd_URI b) = ''.ino''"
      by (simp add: s1_def)
    have s1_docs: "inoDocsWithDiagnostics (fo_handler s1) = inoDocsWithDiagnostics (fo_handler s)"
      by (simp add: s1_def)
    have paths: "set (inoPaths e (b # bs)) =
        (if Ext e (pd_URI b) = ''.ino'' then {Canonical e (pd_URI b)} else {}) \<union> set (inoPaths e bs)"
      using False by (auto simp add: inoPaths_def)
    from Cons.IH [of "s1\<lparr>sentToIDE := sentToIDE s1 @ [b]\<rparr>"]
    obtain s' where r: "publishLoop e c bs (s1\<lparr>sentToIDE := sentToIDE s1 @ [b]\<rparr>) = (s', None)"
      and a: "sentToIDE s' = (sentToIDE s1 @ [b]) @ published e bs"
      and b: "set (fo_inoDocsWithDiagnostics s')
                = set (fo_inoDocsWithDiagnostics s1) \<union> set (inoPaths e bs)"
      and c: "cleanUpInoDiagnostics s' \<longleftrightarrow> cleanUpInoDiagnostics s1
                 \<or> list_ex (\<lambda>b. pd_URI b = NotInoURI e \<or> Ext e (pd_URI b) = ''.ino'') bs"
      and d: "inoDocsWithDiagnostics (fo_handler s') = inoDocsWithDiagnostics (fo_handler s1)"
      by auto
    have "sentToIDE s' = sentToIDE s @ published e (b # bs)"
      using a s1_sent False by (simp add: published_def)
    moreover have "set (fo_inoDocsWithDiagnostics s')
        = set (fo_inoDocsWithDiagnostics s) \<union> set (inoPaths e (b # bs))"
      using b s1_set paths by auto
    moreover have "cleanUpInoDiagnostics s' \<longleftrightarrow> cleanUpInoDiagnostics s
        \<or> list_ex (\<lambda>b. pd_URI b = NotInoURI e \<or> Ext e (pd_URI b) = ''.ino'') (b # bs)"
      using c s1_clean False by auto
    moreover have "inoDocsWithDiagnostics (fo_handler s') = inoDocsWithDiagnostics (fo_handler s)"
      using d s1_docs by simp
    ultimately show ?thesis using step r by simp
  qed
qed

lemma clearLoop_ok:
  assumes "\<forall>m. IdeNotify c m = None"
  shows "clearLoop e c ps s =
           (s\<lparr>sentToIDE := sentToIDE s @ map (clearMessage e)
                  (filter (\<lambda>p. p \<notin> set (fo_inoDocsWithDiagnostics s)) ps)\<rparr>, None)"
  using assms by (induction ps arbitrary: s) (simp_all add: clearMessage_def Let_def)

lemma FromClangd_ok:
  assumes conv: "cpp2inoDiagnostics e h p = Inr batches"
    and sends: "\<forall>m. IdeNotify c m = None"
  shows "\<exists>h'. FromClangd e c h p =
            (h', published e batches
                 @ (if cleanUpGate e batches
                    then staleMessages e batches (inoDocsWithDiagnostics h) else []), None)
          \<and> set (inoDocsWithDiagnostics h')
              = (if cleanUpGate e batches then set (inoPaths e batches)
                 else set (inoDocsWithDiagnostics h))"
proof -
  define s0 :: "'a FanOut" where "s0 = \<lparr>fo_handler = h, fo_inoDocsWithDiagnostics = [],
                   cleanUpInoDiagnostics = (length batches = 0), sentToIDE = []\<rparr>"
  from publishLoop_ok [OF sends, of e batches s0]
  obtain s where r: "publishLoop e c batches s0 = (s, None)"
    and a: "sentToIDE s = published e batches"
    and b: "set (fo_inoDocsWithDiagnostics s) = set (inoPaths e batches)"
    and c: "cleanUpInoDiagnostics s \<longleftrightarrow> cleanUpGate e batches"
    and d: "inoDocsWithDiagnostics (fo_handler s) = inoDocsWithDiagnostics h"
    by (auto simp add: s0_def cleanUpGate_def)
  show ?thesis
  proof (cases "cleanUpGate e batches")
    case False
    then show ?thesis
      using conv r c d a by (simp add: FromClangd_def s0_def)
  next
    case True
    have "clearLoop e c (inoDocsWithDiagnostics (fo_handler s)) s =
           (s\<lparr>sentToIDE := published e batches @ staleMessages e batches (inoDocsWithDiagnostics h)\<rparr>,
            None)"
      using clearLoop_ok [OF sends, of e "inoDocsWithDiagnostics (fo_handler s)" s] a b d
      by (simp add: staleMessages_def)
    then show ?thesis
      using conv r c True b by (simp add: FromClangd_def s0_def)
  qed
qed


lemma publishLoop_any:
  "publishLoop e c bs s = (s', r) \<Longrightarrow>
     \<exists>xs. sentToIDE s' = sentToIDE s @ xs \<and> set xs \<subseteq> set (published e bs)
        \<and> inoDocsWithDiagnostics (fo_handler s') = inoDocsWithDiagnostics (fo_handler s)"
proof (induction bs arbitrary: s)
  case Nil
  then show ?case by simp
next
  case (Cons b bs)
  show ?case
  proof (cases "pd_URI b = NotInoURI e")
    case True
    with Cons.prems have "publishLoop e c bs (s\<lparr>cleanUpInoDiagnostics := True\<rparr>) = (s', r)"
      by simp
    from Cons.IH [OF this] True show ?thesis by (auto simp add: published_def)
  next
    case False
    define s1 where "s1 = (if Ext e (pd_URI b) = ''.ino''
                then s\<lparr>fo_inoDocsWithDiagnostics :=
                          List.insert (Canonical e (pd_URI b)) (fo_inoDocsWithDiagnostics s),
                        cleanUpInoDiagnostics := True,
                        fo_handler :=
                          (if list_ex undeclared (Diagnostics b)
                           then (fo_handler s)\<lparr>buildSketchSymbolsCheck := True\<rparr>
                           else fo_handler s)\<rparr>
                else s)"
    have s1_sent: "sentToIDE s1 = sentToIDE s" by (simp add: s1_def)
    have s1_docs: "inoDocsWithDiagnostics (fo_handler s1) = inoDocsWithDiagnostics (fo_handler s)"
      by (simp add: s1_def)
    show ?thesis
    proof (cases "IdeNotify c b")
      case (Some failure)
      with Cons.prems False have "s' = s1"
        by (simp add: s1_def Let_def)
      then show ?thesis using s1_sent s1_docs by simp
    next
      case None
      with Cons.prems False
      have "publishLoop e c bs (s1\<lparr>sentToIDE := sentToIDE s1 @ [b]\<rparr>) = (s', r)"
        by (simp add: s1_def Let_def)
      from Cons.IH [OF this] obtain xs where
        "sentToIDE s' = (sentToIDE s1 @ [b]) @ xs" "set xs \<subseteq> set (published e bs)"
        "inoDocsWithDiagnostics (fo_handler s') = inoDocsWithDiagnostics (fo_handler s1)"
        by auto
      then have "sentToIDE s' = sentToIDE s @ (b # xs)
          \<and> set (b # xs) \<subseteq> set (published e (b # bs))
          \<and> inoDocsWithDiagnostics (fo_handler s') = inoDocsWithDiagnostics (fo_handler s)"
        using s1_sent s1_docs False by (auto simp add: published_def)
      then show ?thesis by blast
    qed
  qed
qed

lemma clearLoop_any:
  "clearLoop e c ps s = (s', r) \<Longrightarrow>
     \<exists>xs. sentToIDE s' = sentToIDE s @ xs \<and> set xs \<subseteq> clearMessage e ` set ps"
proof (induction ps arbitrary: s)
  case Nil
  then show ?case by simp
next
  case (Cons path ps)
  show ?case
  proof (cases "path \<in> set (fo_inoDocsWithDiagnostics s)")
    case True
    with Cons.prems have "clearLoop e c ps s = (s', r)" by simp
    from Cons.IH [OF this] show ?thesis by auto
  next
    case False
    show ?thesis
    proof (cases "IdeNotify c (clearMessage e path)")
      case (Some failure)
      with Cons.prems False have "s' = s"
        by (simp add: clearMessage_def Let_def)
      then show ?thesis by simp
    next
      case None
      with Cons.prems False
      have "clearLoop e c ps (s\<lparr>sentToIDE := sentToIDE s @ [clearMessage e path]\<rparr>) = (s', r)"
        by (simp add: clearMessage_def Let_def)
      from Cons.IH [OF this] obtain xs where
        "sentToIDE s' = (sentToIDE s @ [clearMessage e path]) @ xs"
        "set xs \<subseteq> clearMessage e ` set ps"
        by auto
      then have "sentToIDE s' = sentToIDE s @ (clearMessage e path # xs)
          \<and> set (clearMessage e path # xs) \<subseteq> clearMessage e ` set (path # ps)"
        by auto
      then show ?thesis by blast
    qed
  qed
qed

lemma FromClangd_any:
  assumes conv: "cpp2inoDiagnostics e h p = Inr batches"
  shows "set (fst (snd (FromClangd e c h p)))
           \<subseteq> set (published e batches) \<union> clearMessage e ` set (inoDocsWithDiagnostics h)"
proof -
  define s0 :: "'a FanOut" where "s0 = \<lparr>fo_handler = h, fo_inoDocsWithDiagnostics = [],
                   cleanUpInoDiagnostics = (length batches = 0), sentToIDE = []\<rparr>"
  obtain s r where pl: "publishLoop e c batches s0 = (s, r)"
    by (cases "publishLoop e c batches s0")
  from publishLoop_any [OF pl] have a: "set (sentToIDE s) \<subseteq> set (published e batches)"
    and d: "inoDocsWithDiagnostics (fo_handler s) = inoDocsWithDiagnostics h"
    by (auto simp add: s0_def)
  obtain s' r' where cl: "clearLoop e c (inoDocsWithDiagnostics (fo_handler s)) s = (s', r')"
    by (cases "clearLoop e c (inoDocsWithDiagnostics (fo_handler s)) s")
  from clearLoop_any [OF cl] a d
  have b: "set (sentToIDE s')
      \<subseteq> set (published e batches) \<union> clearMessage e ` set (inoDocsWithDiagnostics h)"
    by auto
  show ?thesis
    using conv pl cl a b
    by (cases r; cases r'; cases "cleanUpInoDiagnostics s")
       (auto simp add: FromClangd_def s0_def)
qed

text \<open>
  C3, as amended. For a notification of clangd that converts, on a connection to the IDE
  whose sends succeed: the fresh batches are published, all but the one of the not-ino
  sentinel; then, if the clearing pass runs (there was no batch, or some batch was for
  the sentinel or for a \<open>.ino\<close> document), every path of the previous set that got no fresh
  batch is sent an empty batch and the set is overwritten with the new set; if it does not
  run (the batches are all for other files), nothing is cleared and the set stays. When
  the pass runs, every published batch is for a \<open>.ino\<close> document and the URI made of a
  path of the previous set has that path as its canonical path, the IDE receives batches
  exactly for the union of the previous and the new set, the stale ones empty.
\<close>

theorem diagnostics_fan_out:
  assumes "cpp2inoDiagnostics e h p = Inr batches"
    and "\<forall>m. IdeNotify c m = None"
  shows "\<exists>h'. FromClangd e c h p =
            (h', published e batches
                 @ (if cleanUpGate e batches
                    then staleMessages e batches (inoDocsWithDiagnostics h) else []), None)
          \<and> set (inoDocsWithDiagnostics h')
              = (if cleanUpGate e batches then set (inoPaths e batches)
                 else set (inoDocsWithDiagnostics h))
          \<and> (\<forall>m \<in> set (staleMessages e batches (inoDocsWithDiagnostics h)). Diagnostics m = [])
          \<and> (cleanUpGate e batches
               \<and> (\<forall>b \<in> set (published e batches). Ext e (pd_URI b) = ''.ino'')
               \<and> (\<forall>path \<in> set (inoDocsWithDiagnostics h). Canonical e (NewDocumentURI e path) = path)
              \<longrightarrow> (\<lambda>m. Canonical e (pd_URI m)) ` set (fst (snd (FromClangd e c h p)))
                    = set (inoDocsWithDiagnostics h) \<union> set (inoPaths e batches))"
proof -
  from FromClangd_ok [OF assms] obtain h' where
    r: "FromClangd e c h p =
            (h', published e batches
                 @ (if cleanUpGate e batches
                    then staleMessages e batches (inoDocsWithDiagnostics h) else []), None)"
    and n: "set (inoDocsWithDiagnostics h')
              = (if cleanUpGate e batches then set (inoPaths e batches)
                 else set (inoDocsWithDiagnostics h))"
    by blast
  have empty: "\<forall>m \<in> set (staleMessages e batches (inoDocsWithDiagnostics h)). Diagnostics m = []"
    by (auto simp add: staleMessages_def clearMessage_def)
  have union: "(\<lambda>m. Canonical e (pd_URI m)) ` set (fst (snd (FromClangd e c h p)))
                    = set (inoDocsWithDiagnostics h) \<union> set (inoPaths e batches)"
    if g: "cleanUpGate e batches"
      and ino: "\<forall>b \<in> set (published e batches). Ext e (pd_URI b) = ''.ino''"
      and canon: "\<forall>path \<in> set (inoDocsWithDiagnostics h). Canonical e (NewDocumentURI e path) = path"
  proof -
    have fresh: "(\<lambda>m. Canonical e (pd_URI m)) ` set (published e batches) = set (inoPaths e batches)"
      using ino by (auto simp add: published_def inoPaths_def)
    have stale: "(\<lambda>m. Canonical e (pd_URI m)) ` set (staleMessages e batches (inoDocsWithDiagnostics h))
        = set (inoDocsWithDiagnostics h) - set (inoPaths e batches)"
      using canon by (auto simp add: staleMessages_def clearMessage_def image_iff)
    show ?thesis
      using r g fresh stale by (auto simp add: image_Un)
  qed
  show ?thesis using r n empty union by blast
qed

theorem diagnostics_fan_out_witness:
  "cpp2inoDiagnostics blinkEnv staleHandler \<lparr>pd_URI = sketchCpp, Diagnostics = [errorAt 45]\<rparr>
     = Inr [\<lparr>pd_URI = tab2Ino, Diagnostics = [errorAt 5]\<rparr>]
   \<and> inoDocsWithDiagnostics staleHandler = [''/sketch/Blink.ino'']
   \<and> fst (snd (FromClangd blinkEnv quietPeers staleHandler
                  \<lparr>pd_URI = sketchCpp, Diagnostics = [errorAt 45]\<rparr>))
       = [\<lparr>pd_URI = tab2Ino, Diagnostics = [errorAt 5]\<rparr>, \<lparr>pd_URI = blinkIno, Diagnostics = []\<rparr>]
   \<and> set (inoDocsWithDiagnostics (fst (FromClangd blinkEnv quietPeers staleHandler
                  \<lparr>pd_URI = sketchCpp, Diagnostics = [errorAt 45]\<rparr>)))
       = {''/sketch/Tab2.ino''}"
proof -
  have h1: "cpp2inoDiagnostics blinkEnv staleHandler \<lparr>pd_URI = sketchCpp, Diagnostics = [errorAt 45]\<rparr>
     = Inr [\<lparr>pd_URI = tab2Ino, Diagnostics = [errorAt 5]\<rparr>]"
    by (simp add: diag_defs sketch_defs)
  have h2: "\<forall>m. IdeNotify quietPeers m = None"
    by (simp add: quietPeers_def)
  have prev: "inoDocsWithDiagnostics staleHandler = [''/sketch/Blink.ino'']"
    by (simp add: staleHandler_def)
  have gate: "cleanUpGate blinkEnv [\<lparr>pd_URI = tab2Ino, Diagnostics = [errorAt 5]\<rparr>]"
    by (simp add: cleanUpGate_def blinkEnv_def tab2Ino_def)
  have pub: "published blinkEnv [\<lparr>pd_URI = tab2Ino, Diagnostics = [errorAt 5]\<rparr>]
      = [\<lparr>pd_URI = tab2Ino, Diagnostics = [errorAt 5]\<rparr>]"
    by (simp add: published_def blinkEnv_def tab2Ino_def)
  have paths: "inoPaths blinkEnv [\<lparr>pd_URI = tab2Ino, Diagnostics = [errorAt 5]\<rparr>]
      = [''/sketch/Tab2.ino'']"
    by (simp add: inoPaths_def blinkEnv_def tab2Ino_def)
  have stale: "staleMessages blinkEnv [\<lparr>pd_URI = tab2Ino, Diagnostics = [errorAt 5]\<rparr>]
      [''/sketch/Blink.ino''] = [\<lparr>pd_URI = blinkIno, Diagnostics = []\<rparr>]"
    by (simp add: staleMessages_def paths clearMessage_def) (simp add: blinkEnv_def blinkIno_def)
  from diagnostics_fan_out [OF h1 h2] obtain h' where
    r: "FromClangd blinkEnv quietPeers staleHandler
           \<lparr>pd_URI = sketchCpp, Diagnostics = [errorAt 45]\<rparr>
         = (h', published blinkEnv [\<lparr>pd_URI = tab2Ino, Diagnostics = [errorAt 5]\<rparr>]
                @ (if cleanUpGate blinkEnv [\<lparr>pd_URI = tab2Ino, Diagnostics = [errorAt 5]\<rparr>]
                   then staleMessages blinkEnv [\<lparr>pd_URI = tab2Ino, Diagnostics = [errorAt 5]\<rparr>]
                          (inoDocsWithDiagnostics staleHandler)
                   else []), None)"
    and n: "set (inoDocsWithDiagnostics h')
         = (if cleanUpGate blinkEnv [\<lparr>pd_URI = tab2Ino, Diagnostics = [errorAt 5]\<rparr>]
            then set (inoPaths blinkEnv [\<lparr>pd_URI = tab2Ino, Diagnostics = [errorAt 5]\<rparr>])
            else set (inoDocsWithDiagnostics staleHandler))"
    by blast
  show ?thesis
    using h1 prev n by (simp add: r gate pub paths stale)
qed

text \<open>
  A notification of clangd for another file, \<open>lib.cpp\<close>, while \<open>Blink.ino\<close> is in the
  previous set: the batch for \<open>lib.cpp\<close> is all the IDE receives, \<open>Blink.ino\<close> is sent no
  empty batch, and the set is not overwritten.
\<close>

theorem diagnostics_other_file:
  "FromClangd blinkEnv quietPeers staleHandler \<lparr>pd_URI = libCpp, Diagnostics = [errorAt 7]\<rparr>
     = (staleHandler, [\<lparr>pd_URI = libCpp, Diagnostics = [errorAt 7]\<rparr>], None)
   \<and> inoDocsWithDiagnostics staleHandler = [''/sketch/Blink.ino'']
   \<and> clearMessage blinkEnv ''/sketch/Blink.ino''
       \<notin> set (fst (snd (FromClangd blinkEnv quietPeers staleHandler
                          \<lparr>pd_URI = libCpp, Diagnostics = [errorAt 7]\<rparr>)))
   \<and> Canonical blinkEnv libCpp \<notin> set (inoDocsWithDiagnostics staleHandler)"
proof -
  have r: "FromClangd blinkEnv quietPeers staleHandler \<lparr>pd_URI = libCpp, Diagnostics = [errorAt 7]\<rparr>
     = (staleHandler, [\<lparr>pd_URI = libCpp, Diagnostics = [errorAt 7]\<rparr>], None)"
    by (simp add: cpp2inoDiagnostics_def cpp2inoDocumentURI_def FromClangd_def errorAt_def
          blinkEnv_def libCpp_def quietPeers_def lineRange_def Let_def)
  have p: "inoDocsWithDiagnostics staleHandler = [''/sketch/Blink.ino'']"
    by (simp add: staleHandler_def)
  have c: "clearMessage blinkEnv ''/sketch/Blink.ino''
       \<notin> set [\<lparr>pd_URI = libCpp, Diagnostics = [errorAt 7]\<rparr>]"
    by (simp add: clearMessage_def)
  have d: "Canonical blinkEnv libCpp \<notin> set [''/sketch/Blink.ino'']"
    by (simp add: blinkEnv_def libCpp_def)
  show ?thesis
    using c d by (simp add: r p)
qed

text \<open>
  C10. A batch of the not-ino sentinel is skipped by the fan-out: whatever the sends to
  the IDE do, the IDE is sent published batches, of which it is none, and clearing
  messages for paths of the previous set. The batch raises the clearing pass: when the
  sends succeed, the published batches are followed by an empty batch for every path of
  the previous set that got no fresh batch, and the set is overwritten with the new set.
\<close>

theorem not_ino_batch_skipped:
  assumes "cpp2inoDiagnostics e h p = Inr batches"
    and "b \<in> set batches"
    and "pd_URI b = NotInoURI e"
  shows "b \<notin> set (published e batches)
         \<and> set (fst (snd (FromClangd e c h p)))
             \<subseteq> set (published e batches) \<union> clearMessage e ` set (inoDocsWithDiagnostics h)
         \<and> ((\<forall>m. IdeNotify c m = None) \<longrightarrow>
              (\<exists>h'. FromClangd e c h p =
                 (h', published e batches @ staleMessages e batches (inoDocsWithDiagnostics h),
                  None)
               \<and> set (inoDocsWithDiagnostics h') = set (inoPaths e batches)))"
proof -
  have skipped: "b \<notin> set (published e batches)"
    using assms(3) by (simp add: published_def)
  have gate: "cleanUpGate e batches"
    using assms(2,3) by (auto simp add: cleanUpGate_def list_ex_iff)
  have sent: "set (fst (snd (FromClangd e c h p)))
             \<subseteq> set (published e batches) \<union> clearMessage e ` set (inoDocsWithDiagnostics h)"
    by (rule FromClangd_any [OF assms(1)])
  have clears: "\<exists>h'. FromClangd e c h p =
                 (h', published e batches @ staleMessages e batches (inoDocsWithDiagnostics h),
                  None)
               \<and> set (inoDocsWithDiagnostics h') = set (inoPaths e batches)"
    if "\<forall>m. IdeNotify c m = None"
    using FromClangd_ok [OF assms(1) that] gate by simp
  show ?thesis using skipped sent clears by blast
qed

theorem not_ino_batch_skipped_witness:
  "cpp2inoDiagnostics blinkEnv staleHandler
       \<lparr>pd_URI = sketchCpp, Diagnostics = [errorAt 3, errorAt 45]\<rparr>
     = Inr [\<lparr>pd_URI = NotInoURI blinkEnv, Diagnostics = [errorAt 0]\<rparr>,
            \<lparr>pd_URI = tab2Ino, Diagnostics = [errorAt 5]\<rparr>]
   \<and> inoDocsWithDiagnostics staleHandler = [''/sketch/Blink.ino'']
   \<and> fst (snd (FromClangd blinkEnv quietPeers staleHandler
                  \<lparr>pd_URI = sketchCpp, Diagnostics = [errorAt 3, errorAt 45]\<rparr>))
       = [\<lparr>pd_URI = tab2Ino, Diagnostics = [errorAt 5]\<rparr>, \<lparr>pd_URI = blinkIno, Diagnostics = []\<rparr>]"
proof -
  have h1: "cpp2inoDiagnostics blinkEnv staleHandler
       \<lparr>pd_URI = sketchCpp, Diagnostics = [errorAt 3, errorAt 45]\<rparr>
     = Inr [\<lparr>pd_URI = NotInoURI blinkEnv, Diagnostics = [errorAt 0]\<rparr>,
            \<lparr>pd_URI = tab2Ino, Diagnostics = [errorAt 5]\<rparr>]"
    by (simp add: diag_defs sketch_defs)
  have h2: "\<lparr>pd_URI = NotInoURI blinkEnv, Diagnostics = [errorAt 0]\<rparr>
              \<in> set [\<lparr>pd_URI = NotInoURI blinkEnv, Diagnostics = [errorAt 0]\<rparr>,
                      \<lparr>pd_URI = tab2Ino, Diagnostics = [errorAt 5]\<rparr>]"
    by simp
  have h3: "pd_URI \<lparr>pd_URI = NotInoURI blinkEnv, Diagnostics = [errorAt 0]\<rparr> = NotInoURI blinkEnv"
    by simp
  have h4: "\<forall>m. IdeNotify quietPeers m = None"
    by (simp add: quietPeers_def)
  have prev: "inoDocsWithDiagnostics staleHandler = [''/sketch/Blink.ino'']"
    by (simp add: staleHandler_def)
  have pub: "published blinkEnv [\<lparr>pd_URI = NotInoURI blinkEnv, Diagnostics = [errorAt 0]\<rparr>,
                                 \<lparr>pd_URI = tab2Ino, Diagnostics = [errorAt 5]\<rparr>]
      = [\<lparr>pd_URI = tab2Ino, Diagnostics = [errorAt 5]\<rparr>]"
    by (simp add: published_def blinkEnv_def tab2Ino_def)
  have paths: "inoPaths blinkEnv [\<lparr>pd_URI = NotInoURI blinkEnv, Diagnostics = [errorAt 0]\<rparr>,
                                  \<lparr>pd_URI = tab2Ino, Diagnostics = [errorAt 5]\<rparr>]
      = [''/sketch/Tab2.ino'']"
    by (simp add: inoPaths_def blinkEnv_def tab2Ino_def)
  have stale: "staleMessages blinkEnv [\<lparr>pd_URI = NotInoURI blinkEnv, Diagnostics = [errorAt 0]\<rparr>,
                                      \<lparr>pd_URI = tab2Ino, Diagnostics = [errorAt 5]\<rparr>]
      [''/sketch/Blink.ino''] = [\<lparr>pd_URI = blinkIno, Diagnostics = []\<rparr>]"
    by (simp add: staleMessages_def paths clearMessage_def) (simp add: blinkEnv_def blinkIno_def)
  from not_ino_batch_skipped [OF h1 h2 h3, of quietPeers] h4 obtain h' where
    r: "FromClangd blinkEnv quietPeers staleHandler
           \<lparr>pd_URI = sketchCpp, Diagnostics = [errorAt 3, errorAt 45]\<rparr>
         = (h', published blinkEnv [\<lparr>pd_URI = NotInoURI blinkEnv, Diagnostics = [errorAt 0]\<rparr>,
                                    \<lparr>pd_URI = tab2Ino, Diagnostics = [errorAt 5]\<rparr>]
                @ staleMessages blinkEnv [\<lparr>pd_URI = NotInoURI blinkEnv, Diagnostics = [errorAt 0]\<rparr>,
                                          \<lparr>pd_URI = tab2Ino, Diagnostics = [errorAt 5]\<rparr>]
                    (inoDocsWithDiagnostics staleHandler), None)"
    by blast
  show ?thesis
    using h1 prev by (simp add: r pub stale)
qed

end
